theory Spec2Isabelle
  imports Main "HOL-Library.Word"
begin

section \<open>Values, errors and the world the server runs in\<close>

text \<open>
  The server (\<^verbatim>\<open>src/app.js\<close>) is an Express application with three adapters around
  cloud services (\<^verbatim>\<open>speechToText\<close>, \<^verbatim>\<open>translateText\<close>, \<^verbatim>\<open>synthesizer\<close>) and two
  request handlers (\<^verbatim>\<open>POST /api/record_audio\<close>, \<^verbatim>\<open>POST /api/synthesize\<close>).

  The embedding is by explicit state passing. The state (\<open>world\<close>) holds the regular
  files on disk and the chronological list of every observable step: calls to the external
  services, calls into \<^verbatim>\<open>fs\<close>, lines written with \<^verbatim>\<open>console.error\<close>. What the
  program cannot control is a parameter (\<open>env\<close>): the answers of the three services, the
  reading of the clock, and whether the operating system refuses a file operation.
  An exception is the left summand of a sum, so that every \<^verbatim>\<open>try\<close>/\<^verbatim>\<open>catch\<close> of the
  source is a \<open>case\<close> of the model.
\<close>

type_synonym byte = "8 word"

datatype js_error =
    TypeError string
  | SystemError string string
  | ServiceError string

text \<open>
  \<open>SystemError code syscall\<close> is the error Node.js raises for a failed system call
  (\<^verbatim>\<open>ENOENT\<close>, \<^verbatim>\<open>EACCES\<close>, \<^verbatim>\<open>EISDIR\<close>, ...); \<open>ServiceError\<close> is whatever a cloud
  client throws or rejects with.
\<close>

datatype js_value =
    Undefined
  | Str string
  | Bytes "byte list"
  | ErrorObj js_error
  | Array "js_value list"

text \<open>JavaScript truthiness, as tested by \<^verbatim>\<open>!x\<close>: the empty string and
  \<^verbatim>\<open>undefined\<close> are falsy, every object (a Buffer, an Error, an array, also the empty
  one) is truthy.\<close>

fun truthy :: "js_value \<Rightarrow> bool" where
  "truthy Undefined = False"
| "truthy (Str s) = (s \<noteq> [])"
| "truthy (Bytes b) = True"
| "truthy (ErrorObj e) = True"
| "truthy (Array xs) = True"

subsection \<open>Requests and replies of the cloud services\<close>

record recognize_request =
  audio_content :: string
  encoding :: string
  sampleRateHertz :: nat
  languageCode :: string

record alternative =
  transcript :: string

record recognition_result =
  alternatives :: "alternative list"

record recognize_response =
  results :: "recognition_result list"

record synthesize_speech_request =
  input_text :: string
  voice_languageCode :: string
  voice_ssmlGender :: string
  audioEncoding :: string

record synthesize_speech_response =
  audioContent :: js_value

subsection \<open>The upload\<close>

text \<open>The file as multer's memory storage hands it over in \<^verbatim>\<open>req.file\<close>.\<close>

record uploaded_file =
  originalname :: string
  buffer :: "byte list"

subsection \<open>The world and the environment\<close>

datatype event =
    CallRecognize recognize_request
  | CallTranslate js_value string
  | CallSynthesizeSpeech synthesize_speech_request
  | FsWriteFile string
  | FsUnlink string
  | ConsoleError string js_error

record world =
  files :: "string \<rightharpoonup> byte list"
  trace :: "event list"

record env =
  dirname :: string
  recognize :: "recognize_request \<Rightarrow> js_error + recognize_response"
  translate :: "js_value \<Rightarrow> string \<Rightarrow> js_error + js_value"
  synthesizeSpeech :: "synthesize_speech_request \<Rightarrow> js_error + synthesize_speech_response"
  date_now :: nat
  write_fault :: "string \<Rightarrow> js_error option"
  unlink_fault :: "string \<Rightarrow> js_error option"

text \<open>
  \<open>dirname\<close> is \<^verbatim>\<open>__dirname\<close>. \<open>recognize\<close>, \<open>translate\<close> and \<open>synthesizeSpeech\<close> give,
  for each request, the first component of the array the client's promise resolves to, or
  the error it throws or rejects with. \<open>date_now\<close> is what \<^verbatim>\<open>Date.now()\<close> returns in this
  run of a handler (milliseconds since the epoch). \<open>write_fault\<close> and \<open>unlink_fault\<close> say
  for which paths the operating system refuses to open, respectively to remove, a file,
  for a reason that the flat map of regular files does not show: a missing or read-only
  directory, a path that names a directory, a file that another process holds open.
\<close>

definition log :: "event \<Rightarrow> world \<Rightarrow> world" where
  "log e w = w\<lparr>trace := trace w @ [e]\<rparr>"

definition console_error :: "string \<Rightarrow> js_error \<Rightarrow> world \<Rightarrow> world" where
  "console_error msg err w = log (ConsoleError msg err) w"

section \<open>The platform functions the program calls\<close>

subsection \<open>\<^verbatim>\<open>Buffer.prototype.toString('base64')\<close>\<close>

definition b64_digit :: "nat \<Rightarrow> char" where
  "b64_digit n =
     ''ABCDEFGHIJKLMNOPQRSTUVWXYZabcdefghijklmnopqrstuvwxyz0123456789+/'' ! (n mod 64)"

fun base64 :: "byte list \<Rightarrow> string" where
  "base64 (a # b # c # rest) =
     (let n = unat a * 65536 + unat b * 256 + unat c
      in [b64_digit (n div 262144), b64_digit (n div 4096), b64_digit (n div 64), b64_digit n]
         @ base64 rest)"
| "base64 [a, b] =
     (let n = unat a * 65536 + unat b * 256
      in [b64_digit (n div 262144), b64_digit (n div 4096), b64_digit (n div 64), CHR ''=''])"
| "base64 [a] =
     (let n = unat a * 65536
      in [b64_digit (n div 262144), b64_digit (n div 4096), CHR ''='', CHR ''=''])"
| "base64 [] = []"

subsection \<open>\<^verbatim>\<open>Array.prototype.join\<close>\<close>

text \<open>
  ECMAScript's loop: \<open>R\<close> starts empty; for each index \<open>k\<close>, the separator is appended
  when \<open>k > 0\<close>, then the element.
\<close>

fun join_from :: "string \<Rightarrow> string list \<Rightarrow> nat \<Rightarrow> string \<Rightarrow> string" where
  "join_from sep [] k R = R"
| "join_from sep (x # xs) k R = join_from sep xs (Suc k) ((if 0 < k then R @ sep else R) @ x)"

definition array_join :: "string \<Rightarrow> string list \<Rightarrow> string" where
  "array_join sep xs = join_from sep xs 0 []"

subsection \<open>Template literals: a non-negative integer as a decimal string\<close>

definition digit_char :: "nat \<Rightarrow> char" where
  "digit_char d = ''0123456789'' ! (d mod 10)"

function decimal :: "nat \<Rightarrow> string" where
  "decimal n = (if n < 10 then [digit_char n] else decimal (n div 10) @ [digit_char (n mod 10)])"
  by pat_completeness auto
termination
  by (relation "measure (\<lambda>n. n)") auto

declare decimal.simps [simp del]

subsection \<open>\<^verbatim>\<open>path.join\<close> (POSIX)\<close>

text \<open>
  \<^verbatim>\<open>path.join\<close> joins its non-empty arguments with \<^verbatim>\<open>/\<close> and normalises the result:
  empty segments and \<^verbatim>\<open>.\<close> are dropped, \<^verbatim>\<open>..\<close> removes the segment before it (above the
  root of an absolute path it is dropped, at the start of a relative one it is kept), a
  trailing slash is kept.
\<close>

fun split_slash :: "string \<Rightarrow> string list" where
  "split_slash [] = [ [] ]"
| "split_slash (c # cs) =
     (if c = CHR ''/'' then [] # split_slash cs
      else (case split_slash cs of [] \<Rightarrow> [ [c] ] | s # ss \<Rightarrow> (c # s) # ss))"

definition normalize_step :: "bool \<Rightarrow> string list \<Rightarrow> string \<Rightarrow> string list" where
  "normalize_step allowAboveRoot res seg =
     (if seg = [] \<or> seg = ''.'' then res
      else if seg = ''..'' then
        (if res \<noteq> [] \<and> last res \<noteq> ''..'' then butlast res
         else if allowAboveRoot then res @ [''..'']
         else res)
      else res @ [seg])"

definition normalizeString :: "string \<Rightarrow> bool \<Rightarrow> string" where
  "normalizeString path allowAboveRoot =
     array_join ''/'' (foldl (normalize_step allowAboveRoot) [] (split_slash path))"

definition normalize :: "string \<Rightarrow> string" where
  "normalize path =
     (if path = [] then ''.''
      else
        let isAbsolute = (hd path = CHR ''/'');
            trailingSeparator = (last path = CHR ''/'');
            p = normalizeString path (\<not> isAbsolute)
        in if p = [] then (if isAbsolute then ''/'' else if trailingSeparator then ''./'' else ''.'')
           else (if isAbsolute then ''/'' else []) @ p @ (if trailingSeparator then ''/'' else []))"

definition path_join :: "string list \<Rightarrow> string" where
  "path_join args =
     (let parts = filter (\<lambda>a. a \<noteq> []) args
      in if parts = [] then ''.'' else normalize (array_join ''/'' parts))"

text \<open>
  \<^verbatim>\<open>path.join\<close> first checks that every argument is a string and throws a
  \<^verbatim>\<open>TypeError\<close> (\<^verbatim>\<open>ERR_INVALID_ARG_TYPE\<close>) otherwise.
\<close>

fun string_args :: "js_value list \<Rightarrow> string list option" where
  "string_args [] = Some []"
| "string_args (Str s # vs) = (case string_args vs of None \<Rightarrow> None | Some ss \<Rightarrow> Some (s # ss))"
| "string_args (v # vs) = None"

definition path_join_args :: "js_value list \<Rightarrow> js_error + string" where
  "path_join_args args =
     (case string_args args of
        None \<Rightarrow> Inl (TypeError ''ERR_INVALID_ARG_TYPE'')
      | Some ss \<Rightarrow> Inr (path_join ss))"

subsection \<open>Object literals\<close>

text \<open>
  An object literal is evaluated property by property, left to right; a key that occurs
  again overwrites the value stored for it and keeps the position of its first occurrence.
\<close>

fun put_property :: "string \<Rightarrow> js_value \<Rightarrow> (string \<times> js_value) list \<Rightarrow> (string \<times> js_value) list" where
  "put_property k v [] = [(k, v)]"
| "put_property k v ((k', v') # ps) =
     (if k = k' then (k, v) # ps else (k', v') # put_property k v ps)"

definition object_literal :: "(string \<times> js_value) list \<Rightarrow> (string \<times> js_value) list" where
  "object_literal props = foldl (\<lambda>obj (k, v). put_property k v obj) [] props"

subsection \<open>\<^verbatim>\<open>fs.writeFileSync\<close> and \<^verbatim>\<open>fs.unlinkSync\<close>\<close>

text \<open>
  \<^verbatim>\<open>writeFileSync\<close> accepts a string or a buffer; for any other data it throws a
  \<^verbatim>\<open>TypeError\<close> (\<^verbatim>\<open>ERR_INVALID_ARG_TYPE\<close>) before it opens the file. A string is written
  in UTF-8, which is the bytes of the model's \<open>string\<close>. \<^verbatim>\<open>unlinkSync\<close> throws
  \<^verbatim>\<open>ENOENT\<close> when there is no file at the path.
\<close>

definition invalid_data :: js_error where
  "invalid_data = TypeError ''ERR_INVALID_ARG_TYPE''"

fun data_bytes :: "js_value \<Rightarrow> byte list option" where
  "data_bytes (Str s) = Some (map of_char s)"
| "data_bytes (Bytes b) = Some b"
| "data_bytes Undefined = None"
| "data_bytes (ErrorObj err) = None"
| "data_bytes (Array xs) = None"

definition writeFileSync ::
  "env \<Rightarrow> string \<Rightarrow> js_value \<Rightarrow> world \<Rightarrow> (js_error + unit) \<times> world" where
  "writeFileSync e path data w =
     (let w1 = log (FsWriteFile path) w
      in case data_bytes data of
           None \<Rightarrow> (Inl invalid_data, w1)
         | Some content \<Rightarrow>
             (case write_fault e path of
                Some err \<Rightarrow> (Inl err, w1)
              | None \<Rightarrow> (Inr (), w1\<lparr>files := (files w1)(path \<mapsto> content)\<rparr>)))"

definition unlinkSync :: "env \<Rightarrow> string \<Rightarrow> world \<Rightarrow> (js_error + unit) \<times> world" where
  "unlinkSync e path w =
     (let w1 = log (FsUnlink path) w
      in case unlink_fault e path of
           Some err \<Rightarrow> (Inl err, w1)
         | None \<Rightarrow>
             (if files w1 path = None then (Inl (SystemError ''ENOENT'' ''unlink''), w1)
              else (Inr (), w1\<lparr>files := (files w1)(path := None)\<rparr>)))"

section \<open>The adapters\<close>

subsection \<open>\<^verbatim>\<open>speechToText\<close>\<close>

text \<open>The callback of \<^verbatim>\<open>results.map\<close>: \<^verbatim>\<open>result.alternatives[0].transcript\<close>. Reading
  \<^verbatim>\<open>transcript\<close> of \<^verbatim>\<open>undefined\<close> (no alternative) throws a \<^verbatim>\<open>TypeError\<close>.\<close>

definition best_transcript :: "recognition_result \<Rightarrow> js_error + string" where
  "best_transcript result =
     (case alternatives result of
        [] \<Rightarrow> Inl (TypeError ''Cannot read properties of undefined (reading 'transcript')'')
      | a # _ \<Rightarrow> Inr (transcript a))"

fun map_results :: "recognition_result list \<Rightarrow> js_error + string list" where
  "map_results [] = Inr []"
| "map_results (r # rs) =
     (case best_transcript r of
        Inl err \<Rightarrow> Inl err
      | Inr t \<Rightarrow> (case map_results rs of Inl err \<Rightarrow> Inl err | Inr ts \<Rightarrow> Inr (t # ts)))"

definition speech_request :: "string \<Rightarrow> recognize_request" where
  "speech_request audioBytes =
     \<lparr>audio_content = audioBytes, encoding = ''WEBM_OPUS'', sampleRateHertz = 48000,
      languageCode = ''es-GT''\<rparr>"

text \<open>The body of the \<^verbatim>\<open>try\<close> block (lines 53 to 68).\<close>

definition speechToText_try ::
  "env \<Rightarrow> uploaded_file \<Rightarrow> world \<Rightarrow> (js_error + js_value) \<times> world" where
  "speechToText_try e audioFile w =
     (let audioBytes = base64 (buffer audioFile);
          request = speech_request audioBytes;
          w1 = log (CallRecognize request) w
      in case recognize e request of
           Inl err \<Rightarrow> (Inl err, w1)
         | Inr response \<Rightarrow>
             (case map_results (results response) of
                Inl err \<Rightarrow> (Inl err, w1)
              | Inr ts \<Rightarrow> (Inr (Str (array_join '' '' ts)), w1)))"

text \<open>The function: the \<^verbatim>\<open>catch\<close> block logs and falls off the end, so the promise is
  fulfilled with \<^verbatim>\<open>undefined\<close>.\<close>

definition speechToText ::
  "env \<Rightarrow> uploaded_file \<Rightarrow> world \<Rightarrow> (js_error + js_value) \<times> world" where
  "speechToText e audioFile w =
     (case speechToText_try e audioFile w of
        (Inr v, w1) \<Rightarrow> (Inr v, w1)
      | (Inl err, w1) \<Rightarrow> (Inr Undefined, console_error ''Error transcribing audio:'' err w1))"

subsection \<open>\<^verbatim>\<open>translateText\<close>\<close>

definition translateText_try ::
  "env \<Rightarrow> js_value \<Rightarrow> string \<Rightarrow> world \<Rightarrow> (js_error + js_value) \<times> world" where
  "translateText_try e text textLang w =
     (let w1 = log (CallTranslate text textLang) w
      in case translate e text textLang of
           Inl err \<Rightarrow> (Inl err, w1)
         | Inr translation \<Rightarrow> (Inr translation, w1))"

definition translateText ::
  "env \<Rightarrow> js_value \<Rightarrow> string \<Rightarrow> world \<Rightarrow> (js_error + js_value) \<times> world" where
  "translateText e text textLang w =
     (case translateText_try e text textLang w of
        (Inr v, w1) \<Rightarrow> (Inr v, w1)
      | (Inl err, w1) \<Rightarrow> (Inr Undefined, console_error ''Error translating text:'' err w1))"

subsection \<open>\<^verbatim>\<open>synthesizer\<close>\<close>

definition synthesis_request :: "string \<Rightarrow> synthesize_speech_request" where
  "synthesis_request text =
     \<lparr>input_text = text, voice_languageCode = ''en-US'', voice_ssmlGender = ''NEUTRAL'',
      audioEncoding = ''LINEAR16''\<rparr>"

definition synthesizer_try :: "env \<Rightarrow> string \<Rightarrow> world \<Rightarrow> (js_error + js_value) \<times> world" where
  "synthesizer_try e text w =
     (let request = synthesis_request text;
          w1 = log (CallSynthesizeSpeech request) w
      in case synthesizeSpeech e request of
           Inl err \<Rightarrow> (Inl err, w1)
         | Inr response \<Rightarrow> (Inr (audioContent response), w1))"

definition synthesizer :: "env \<Rightarrow> string \<Rightarrow> world \<Rightarrow> (js_error + js_value) \<times> world" where
  "synthesizer e text w =
     (case synthesizer_try e text w of
        (Inr v, w1) \<Rightarrow> (Inr v, w1)
      | (Inl err, w1) \<Rightarrow> (Inr Undefined, console_error ''Error synthesizing speech:'' err w1))"

section \<open>The request handlers\<close>

text \<open>
  A handler sees the request after the middleware has run: \<^verbatim>\<open>req.file\<close> is the upload
  that multer buffered in memory, or \<^verbatim>\<open>undefined\<close> (\<open>None\<close>) when the form had no
  \<^verbatim>\<open>audioData\<close> part. \<^verbatim>\<open>req.body.fileName\<close> is what multer made of the form's
  \<^verbatim>\<open>fileName\<close> fields: \<^verbatim>\<open>undefined\<close> when there is none, a string when there is one, an
  array of strings when the field is repeated. \<^verbatim>\<open>req.body.text\<close> is a string, or
  \<^verbatim>\<open>undefined\<close> when the field is absent. What the handler passes to
  \<^verbatim>\<open>res.status(n).send(obj)\<close> is the response.
\<close>

record record_audio_request =
  req_file :: "uploaded_file option"
  body_fileName :: js_value

record synthesize_request =
  body_text :: "string option"

record response =
  status :: nat
  body :: "(string \<times> js_value) list"

definition field_value :: "string option \<Rightarrow> js_value" where
  "field_value f = (case f of None \<Rightarrow> Undefined | Some s \<Rightarrow> Str s)"

definition send :: "nat \<Rightarrow> (string \<times> js_value) list \<Rightarrow> response" where
  "send code props = \<lparr>status = code, body = object_literal props\<rparr>"

subsection \<open>\<^verbatim>\<open>POST /api/record_audio\<close>\<close>

text \<open>The path \<^verbatim>\<open>path.join(__dirname, 'audio_files', fileName)\<close> of a \<^verbatim>\<open>fileName\<close> that
  is a string.\<close>

definition scratch_path :: "env \<Rightarrow> string \<Rightarrow> string" where
  "scratch_path e fileName = path_join [dirname e, ''audio_files'', fileName]"

text \<open>Lines 118 to 124: what the handler does once the scratch file is written.\<close>

definition record_audio_after_write ::
  "env \<Rightarrow> uploaded_file \<Rightarrow> string \<Rightarrow> world \<Rightarrow> (js_error + response) \<times> world" where
  "record_audio_after_write e audioFile filePath w =
     (case speechToText e audioFile w of
        (Inl err, w1) \<Rightarrow> (Inl err, w1)
      | (Inr transcription, w1) \<Rightarrow>
          (case unlinkSync e filePath w1 of
             (Inl err, w2) \<Rightarrow> (Inl err, w2)
           | (Inr _, w2) \<Rightarrow>
               (case translateText e transcription ''en'' w2 of
                  (Inl err, w3) \<Rightarrow> (Inl err, w3)
                | (Inr translatedText, w3) \<Rightarrow>
                    (Inr (send 200
                       [(''message'', Str ''Transcription successful''),
                        (''audioTranscription'', transcription),
                        (''translatedText'', translatedText)]), w3))))"

text \<open>The body of the \<^verbatim>\<open>try\<close> block (lines 108 to 124). The case \<open>None\<close> cannot
  be reached past the guard; there JavaScript would throw the \<^verbatim>\<open>TypeError\<close> given.\<close>

definition record_audio_try ::
  "env \<Rightarrow> record_audio_request \<Rightarrow> world \<Rightarrow> (js_error + response) \<times> world" where
  "record_audio_try e req w =
     (let fileName = body_fileName req
      in if req_file req = None \<or> \<not> truthy fileName then
           (Inr (send 400 [(''error'', Str ''Audio data and file name are required'')]), w)
         else
           (case req_file req of
              Some audioFile \<Rightarrow>
                (case path_join_args [Str (dirname e), Str ''audio_files'', fileName] of
                   Inl err \<Rightarrow> (Inl err, w)
                 | Inr filePath \<Rightarrow>
                     (case writeFileSync e filePath (Bytes (buffer audioFile)) w of
                        (Inl err, w1) \<Rightarrow> (Inl err, w1)
                      | (Inr _, w1) \<Rightarrow> record_audio_after_write e audioFile filePath w1))
            | None \<Rightarrow> (Inl (TypeError ''ERR_INVALID_ARG_TYPE''), w)))"

text \<open>The handler: the \<^verbatim>\<open>catch\<close> block sends
  \<^verbatim>\<open>{ error: 'Failed to process audio', error }\<close>.\<close>

definition record_audio :: "env \<Rightarrow> record_audio_request \<Rightarrow> world \<Rightarrow> response \<times> world" where
  "record_audio e req w =
     (case record_audio_try e req w of
        (Inr res, w1) \<Rightarrow> (res, w1)
      | (Inl error, w1) \<Rightarrow>
          (send 500 [(''error'', Str ''Failed to process audio''), (''error'', ErrorObj error)],
           console_error ''Error processing audio:'' error w1))"

subsection \<open>\<^verbatim>\<open>POST /api/record_audio\<close> while other requests run\<close>

text \<open>
  The handler is suspended at its two \<^verbatim>\<open>await\<close>s (lines 118 and 122), and the handlers
  of other requests run meanwhile. What they do to the disk is what this program does to
  it: they write files and remove files. An \<open>interleaving\<close> gives these operations, in
  order, for each of the two suspensions; \<open>record_audio_among\<close> is the handler run among
  them, and \<open>record_audio\<close> is the handler run alone (\<open>record_audio_among_alone\<close>).
\<close>

datatype fs_op = PutFile string "byte list" | RemoveFile string

fun apply_fs_op :: "fs_op \<Rightarrow> (string \<rightharpoonup> byte list) \<Rightarrow> (string \<rightharpoonup> byte list)" where
  "apply_fs_op (PutFile path content) fs = fs(path \<mapsto> content)"
| "apply_fs_op (RemoveFile path) fs = fs(path := None)"

definition meanwhile :: "fs_op list \<Rightarrow> world \<Rightarrow> world" where
  "meanwhile ops w = w\<lparr>files := fold apply_fs_op ops (files w)\<rparr>"

record interleaving =
  during_transcription :: "fs_op list"
  during_translation :: "fs_op list"

definition record_audio_after_write_among ::
  "interleaving \<Rightarrow> env \<Rightarrow> uploaded_file \<Rightarrow> string \<Rightarrow> world \<Rightarrow> (js_error + response) \<times> world" where
  "record_audio_after_write_among i e audioFile filePath w =
     (case speechToText e audioFile w of
        (Inl err, w1) \<Rightarrow> (Inl err, meanwhile (during_transcription i) w1)
      | (Inr transcription, w1) \<Rightarrow>
          (case unlinkSync e filePath (meanwhile (during_transcription i) w1) of
             (Inl err, w2) \<Rightarrow> (Inl err, w2)
           | (Inr _, w2) \<Rightarrow>
               (case translateText e transcription ''en'' w2 of
                  (Inl err, w3) \<Rightarrow> (Inl err, meanwhile (during_translation i) w3)
                | (Inr translatedText, w3) \<Rightarrow>
                    (Inr (send 200
                       [(''message'', Str ''Transcription successful''),
                        (''audioTranscription'', transcription),
                        (''translatedText'', translatedText)]),
                     meanwhile (during_translation i) w3))))"

definition record_audio_try_among ::
  "interleaving \<Rightarrow> env \<Rightarrow> record_audio_request \<Rightarrow> world \<Rightarrow> (js_error + response) \<times> world" where
  "record_audio_try_among i e req w =
     (let fileName = body_fileName req
      in if req_file req = None \<or> \<not> truthy fileName then
           (Inr (send 400 [(''error'', Str ''Audio data and file name are required'')]), w)
         else
           (case req_file req of
              Some audioFile \<Rightarrow>
                (case path_join_args [Str (dirname e), Str ''audio_files'', fileName] of
                   Inl err \<Rightarrow> (Inl err, w)
                 | Inr filePath \<Rightarrow>
                     (case writeFileSync e filePath (Bytes (buffer audioFile)) w of
                        (Inl err, w1) \<Rightarrow> (Inl err, w1)
                      | (Inr _, w1) \<Rightarrow> record_audio_after_write_among i e audioFile filePath w1))
            | None \<Rightarrow> (Inl (TypeError ''ERR_INVALID_ARG_TYPE''), w)))"

definition record_audio_among ::
  "interleaving \<Rightarrow> env \<Rightarrow> record_audio_request \<Rightarrow> world \<Rightarrow> response \<times> world" where
  "record_audio_among i e req w =
     (case record_audio_try_among i e req w of
        (Inr res, w1) \<Rightarrow> (res, w1)
      | (Inl error, w1) \<Rightarrow>
          (send 500 [(''error'', Str ''Failed to process audio''), (''error'', ErrorObj error)],
           console_error ''Error processing audio:'' error w1))"

definition alone :: interleaving where
  "alone = \<lparr>during_transcription = [], during_translation = []\<rparr>"

subsection \<open>\<^verbatim>\<open>POST /api/synthesize\<close>\<close>

text \<open>
  \<open>audioFolder\<close> is the module's constant of that name (line 40), \<open>output_name\<close> the
  template literal of line 143. In \<open>synthesize_try\<close> (lines 135 to 150) the case
  \<open>None\<close> cannot be reached past the guard.
\<close>

definition audioFolder :: "env \<Rightarrow> string" where
  "audioFolder e = path_join [dirname e, ''audio_files'']"

definition output_name :: "nat \<Rightarrow> string" where
  "output_name millis = ''output_'' @ decimal millis @ ''.wav''"

definition synthesize_try ::
  "env \<Rightarrow> synthesize_request \<Rightarrow> world \<Rightarrow> (js_error + response) \<times> world" where
  "synthesize_try e req w =
     (if \<not> truthy (field_value (body_text req)) then
        (Inr (send 400 [(''error'', Str ''Text is required for synthesis'')]), w)
      else
        (case body_text req of
           Some text \<Rightarrow>
             (case synthesizer e text w of
                (Inl err, w1) \<Rightarrow> (Inl err, w1)
              | (Inr audioBuffer, w1) \<Rightarrow>
                  (let audioFileName = output_name (date_now e);
                       audioFilePath = path_join [audioFolder e, audioFileName]
                   in case writeFileSync e audioFilePath audioBuffer w1 of
                        (Inl err, w2) \<Rightarrow> (Inl err, w2)
                      | (Inr _, w2) \<Rightarrow>
                          (Inr (send 200
                             [(''audioURL'', Str (''http://localhost:3001/audio/'' @ audioFileName))]),
                           w2)))
         | None \<Rightarrow> (Inl (TypeError ''ERR_INVALID_ARG_TYPE''), w)))"

definition synthesize :: "env \<Rightarrow> synthesize_request \<Rightarrow> world \<Rightarrow> response \<times> world" where
  "synthesize e req w =
     (case synthesize_try e req w of
        (Inr res, w1) \<Rightarrow> (res, w1)
      | (Inl error, w1) \<Rightarrow>
          (send 500 [(''error'', Str ''Failed to synthesize text'')],
           console_error ''Error al sintetizar texto:'' error w1))"

section \<open>Notions used to state the properties\<close>

text \<open>
  The transcription result as the specification words it: the concatenation, joined by
  single spaces, of the first alternative's transcript of each recognised segment.
\<close>

fun space_joined :: "string list \<Rightarrow> string" where
  "space_joined [] = []"
| "space_joined [t] = t"
| "space_joined (t # u # us) = t @ '' '' @ space_joined (u # us)"

definition first_transcripts :: "recognize_response \<Rightarrow> string list" where
  "first_transcripts response = map (\<lambda>r. transcript (hd (alternatives r))) (results response)"


subsection \<open>A concrete run\<close>

text \<open>
  An upload of four bytes named \<^verbatim>\<open>a.webm\<close> (and the same upload with the field
  \<^verbatim>\<open>fileName\<close> sent twice), services that answer, a disk that refuses nothing, an empty
  audio folder.
\<close>

definition upload0 :: uploaded_file where
  "upload0 = \<lparr>originalname = ''blob'', buffer = [26, 69, 223, 163]\<rparr>"

definition req0 :: record_audio_request where
  "req0 = \<lparr>req_file = Some upload0, body_fileName = Str ''a.webm''\<rparr>"

definition req_repeated :: record_audio_request where
  "req_repeated =
     \<lparr>req_file = Some upload0, body_fileName = Array [Str ''a.webm'', Str ''b.webm'']\<rparr>"

definition sreq0 :: synthesize_request where
  "sreq0 = \<lparr>body_text = Some ''hola''\<rparr>"

definition response0 :: recognize_response where
  "response0 =
     \<lparr>results =
        [\<lparr>alternatives = [\<lparr>transcript = ''hola''\<rparr>, \<lparr>transcript = ''ola''\<rparr>]\<rparr>,
         \<lparr>alternatives = [\<lparr>transcript = ''mundo''\<rparr>]\<rparr>]\<rparr>"

definition env0 :: env where
  "env0 =
     \<lparr>dirname = ''/srv/app'',
      recognize = (\<lambda>request. Inr response0),
      translate = (\<lambda>text textLang. Inr (Str ''hello world'')),
      synthesizeSpeech = (\<lambda>request. Inr \<lparr>audioContent = Bytes [82, 73, 70, 70]\<rparr>),
      date_now = 1700000000000,
      write_fault = (\<lambda>path. None),
      unlink_fault = (\<lambda>path. None)\<rparr>"

definition w0 :: world where
  "w0 = \<lparr>files = Map.empty, trace = []\<rparr>"

text \<open>
  The same run with a disk that refuses to remove files (\<^verbatim>\<open>EPERM\<close>), with services that
  reject every call, with both, and with a disk that refuses to open files for writing.
\<close>

definition env_unlink_refused :: env where
  "env_unlink_refused = env0\<lparr>unlink_fault := (\<lambda>path. Some (SystemError ''EPERM'' ''unlink''))\<rparr>"

definition env_service_down :: env where
  "env_service_down =
     env0\<lparr>recognize := (\<lambda>request. Inl (ServiceError ''UNAVAILABLE'')),
          translate := (\<lambda>text textLang. Inl (ServiceError ''UNAVAILABLE'')),
          synthesizeSpeech := (\<lambda>request. Inl (ServiceError ''UNAVAILABLE''))\<rparr>"

definition env_service_down_unlink_refused :: env where
  "env_service_down_unlink_refused =
     env_service_down\<lparr>unlink_fault := (\<lambda>path. Some (SystemError ''EPERM'' ''unlink''))\<rparr>"

definition env_write_refused :: env where
  "env_write_refused = env0\<lparr>write_fault := (\<lambda>path. Some (SystemError ''ENOENT'' ''open''))\<rparr>"

section \<open>Facts about the platform functions\<close>

subsection \<open>Joining\<close>

lemma join_from_pos: "0 < k \<Longrightarrow> join_from sep xs k R = R @ concat (map (\<lambda>x. sep @ x) xs)"
  by (induction xs arbitrary: k R) simp_all

lemma array_join_Nil: "array_join sep [] = []"
  by (simp add: array_join_def)

lemma array_join_Cons: "array_join sep (x # xs) = x @ concat (map (\<lambda>y. sep @ y) xs)"
  by (simp add: array_join_def join_from_pos)

lemma space_joined_Cons: "space_joined (x # xs) = x @ concat (map (\<lambda>y. '' '' @ y) xs)"
  by (induction xs arbitrary: x) simp_all

lemma array_join_space: "array_join '' '' ts = space_joined ts"
  by (cases ts) (simp_all add: array_join_Nil array_join_Cons space_joined_Cons)


subsection \<open>Decimal strings\<close>








subsection \<open>Paths\<close>












subsection \<open>Object literals and the file system\<close>

lemma send_single: "send code [(k, v)] = \<lparr>status = code, body = [(k, v)]\<rparr>"
  by (simp add: send_def object_literal_def)

lemma send_200:
  "send 200 [(''message'', m), (''audioTranscription'', t), (''translatedText'', tr)] =
     \<lparr>status = 200, body = [(''message'', m), (''audioTranscription'', t), (''translatedText'', tr)]\<rparr>"
  by (simp add: send_def object_literal_def)

lemma send_500_duplicate:
  "send 500 [(''error'', m), (''error'', v)] = \<lparr>status = 500, body = [(''error'', v)]\<rparr>"
  by (simp add: send_def object_literal_def)

lemma writeFileSync_ok:
  "write_fault e p = None \<Longrightarrow>
   writeFileSync e p (Bytes b) w =
     (Inr (), w\<lparr>files := (files w)(p \<mapsto> b), trace := trace w @ [FsWriteFile p]\<rparr>)"
  by (simp add: writeFileSync_def log_def)

lemma writeFileSync_fault:
  "write_fault e p = Some err \<Longrightarrow>
   writeFileSync e p (Bytes b) w = (Inl err, w\<lparr>trace := trace w @ [FsWriteFile p]\<rparr>)"
  by (simp add: writeFileSync_def log_def)

lemma unlinkSync_ok:
  "unlink_fault e p = None \<Longrightarrow> files w p \<noteq> None \<Longrightarrow>
   unlinkSync e p w =
     (Inr (), w\<lparr>files := (files w)(p := None), trace := trace w @ [FsUnlink p]\<rparr>)"
  by (auto simp add: unlinkSync_def log_def)

lemma unlinkSync_fault:
  "unlink_fault e p = Some err \<Longrightarrow>
   unlinkSync e p w = (Inl err, w\<lparr>trace := trace w @ [FsUnlink p]\<rparr>)"
  by (simp add: unlinkSync_def log_def)

section \<open>Facts about the adapters\<close>

lemma map_results_ok:
  "\<forall>r \<in> set rs. alternatives r \<noteq> [] \<Longrightarrow>
   map_results rs = Inr (map (\<lambda>r. transcript (hd (alternatives r))) rs)"
  by (induction rs) (auto simp: best_transcript_def split: list.splits)

lemma map_results_fails:
  "r \<in> set rs \<Longrightarrow> alternatives r = [] \<Longrightarrow> \<exists>err. map_results rs = Inl err"
  by (induction rs) (auto simp: best_transcript_def split: list.splits sum.splits)

lemma speechToText_frame:
  "\<exists>v evs. \<forall>w. speechToText e audioFile w = (Inr v, w\<lparr>trace := trace w @ evs\<rparr>)"
proof (cases "recognize e (speech_request (base64 (buffer audioFile)))")
  case (Inl err)
  then show ?thesis
    by (simp add: speechToText_def speechToText_try_def console_error_def log_def) blast
next
  case (Inr response)
  then show ?thesis
    by (cases "map_results (results response)")
       (simp_all add: speechToText_def speechToText_try_def console_error_def log_def, blast+)
qed

lemma translateText_frame:
  "\<exists>v evs. \<forall>w. translateText e text lang w = (Inr v, w\<lparr>trace := trace w @ evs\<rparr>)"
  by (cases "translate e text lang")
     (simp_all add: translateText_def translateText_try_def console_error_def log_def, blast+)

lemma synthesizer_frame:
  "\<exists>v evs. \<forall>w. synthesizer e text w = (Inr v, w\<lparr>trace := trace w @ evs\<rparr>)"
  by (cases "synthesizeSpeech e (synthesis_request text)")
     (simp_all add: synthesizer_def synthesizer_try_def console_error_def log_def, blast+)

lemma speechToText_rejected:
  "recognize e (speech_request (base64 (buffer audioFile))) = Inl err \<Longrightarrow> fst (speechToText e audioFile w) = Inr Undefined"
  by (simp add: speechToText_def speechToText_try_def)

lemma translateText_rejected:
  "translate e text lang = Inl err \<Longrightarrow> fst (translateText e text lang w) = Inr Undefined"
  by (simp add: translateText_def translateText_try_def)

lemma synthesizer_rejected:
  "synthesizeSpeech e (synthesis_request text) = Inl err \<Longrightarrow>
   synthesizer e text w =
     (Inr Undefined,
      w\<lparr>trace := trace w @ [CallSynthesizeSpeech (synthesis_request text),
                              ConsoleError ''Error synthesizing speech:'' err]\<rparr>)"
  by (simp add: synthesizer_def synthesizer_try_def console_error_def log_def)




section \<open>Facts about the handlers\<close>

lemma after_write_ok:
  assumes u: "unlink_fault e p = None"
  shows "\<exists>t tr evs.
     (\<forall>w. files w p \<noteq> None \<longrightarrow>
        record_audio_after_write e audioFile p w =
          (Inr \<lparr>status = 200,
                body = [(''message'', Str ''Transcription successful''),
                        (''audioTranscription'', t), (''translatedText'', tr)]\<rparr>,
           w\<lparr>files := (files w)(p := None), trace := trace w @ evs\<rparr>))
     \<and> FsUnlink p \<in> set evs
     \<and> (\<forall>w. fst (speechToText e audioFile w) = Inr t)
     \<and> (\<forall>w. fst (translateText e t ''en'' w) = Inr tr)"
proof -
  obtain t evs1 where s: "\<And>w. speechToText e audioFile w = (Inr t, w\<lparr>trace := trace w @ evs1\<rparr>)"
    using speechToText_frame [of e audioFile] by blast
  obtain tr evs2 where r: "\<And>w. translateText e t ''en'' w = (Inr tr, w\<lparr>trace := trace w @ evs2\<rparr>)"
    using translateText_frame [of e t "''en''"] by blast
  have "\<forall>w. files w p \<noteq> None \<longrightarrow> record_audio_after_write e audioFile p w =
       (Inr \<lparr>status = 200,
             body = [(''message'', Str ''Transcription successful''),
                     (''audioTranscription'', t), (''translatedText'', tr)]\<rparr>,
        w\<lparr>files := (files w)(p := None), trace := trace w @ (evs1 @ FsUnlink p # evs2)\<rparr>)"
    using u by (simp add: record_audio_after_write_def s r unlinkSync_ok send_200)
  moreover have "FsUnlink p \<in> set (evs1 @ FsUnlink p # evs2)" by simp
  moreover have "\<forall>w. fst (speechToText e audioFile w) = Inr t" by (simp add: s)
  moreover have "\<forall>w. fst (translateText e t ''en'' w) = Inr tr" by (simp add: r)
  ultimately show ?thesis by blast
qed

lemma after_write_fault:
  assumes u: "unlink_fault e p = Some err"
  shows "\<exists>evs.
     (\<forall>w. record_audio_after_write e audioFile p w = (Inl err, w\<lparr>trace := trace w @ evs\<rparr>))
     \<and> FsUnlink p \<in> set evs"
proof -
  obtain t evs1 where s: "\<And>w. speechToText e audioFile w = (Inr t, w\<lparr>trace := trace w @ evs1\<rparr>)"
    using speechToText_frame [of e audioFile] by blast
  have "\<forall>w. record_audio_after_write e audioFile p w =
          (Inl err, w\<lparr>trace := trace w @ (evs1 @ [FsUnlink p])\<rparr>)"
    using u by (simp add: record_audio_after_write_def s unlinkSync_fault)
  moreover have "FsUnlink p \<in> set (evs1 @ [FsUnlink p])" by simp
  ultimately show ?thesis by blast
qed

lemma path_join_args_scratch:
  "path_join_args [Str (dirname e), Str ''audio_files'', Str fileName] = Inr (scratch_path e fileName)"
  by (simp add: path_join_args_def scratch_path_def)

lemma path_join_args_not_string:
  "\<forall>s. v \<noteq> Str s \<Longrightarrow>
   path_join_args [Str a, Str b, v] = Inl (TypeError ''ERR_INVALID_ARG_TYPE'')"
  by (cases v) (simp_all add: path_join_args_def)

lemma record_audio_valid:
  assumes "req_file req = Some audioFile" and "body_fileName req = Str fileName"
    and "fileName \<noteq> []"
  shows "record_audio_try e req w =
     (case writeFileSync e (scratch_path e fileName) (Bytes (buffer audioFile)) w of
        (Inl err, w1) \<Rightarrow> (Inl err, w1)
      | (Inr _, w1) \<Rightarrow> record_audio_after_write e audioFile (scratch_path e fileName) w1)"
  using assms by (simp add: record_audio_try_def Let_def path_join_args_scratch)

lemma record_audio_not_string:
  assumes "req_file req = Some audioFile" and "truthy (body_fileName req)"
    and "\<forall>s. body_fileName req \<noteq> Str s"
  shows "record_audio e req w =
       (\<lparr>status = 500, body = [(''error'', ErrorObj (TypeError ''ERR_INVALID_ARG_TYPE''))]\<rparr>,
        w\<lparr>trace := trace w @
            [ConsoleError ''Error processing audio:'' (TypeError ''ERR_INVALID_ARG_TYPE'')]\<rparr>)"
  using assms
  by (simp add: record_audio_def record_audio_try_def Let_def path_join_args_not_string
      send_500_duplicate console_error_def log_def)

lemma record_audio_invalid:
  assumes "req_file req = None \<or> body_fileName req = Undefined \<or> body_fileName req = Str []"
  shows "record_audio e req w =
        (\<lparr>status = 400, body = [(''error'', Str ''Audio data and file name are required'')]\<rparr>, w)"
  using assms
  by (auto simp add: record_audio_def record_audio_try_def Let_def send_single)

lemma record_audio_ok:
  assumes v: "req_file req = Some audioFile" "body_fileName req = Str fileName" "fileName \<noteq> []"
    and wf: "write_fault e (scratch_path e fileName) = None"
    and uf: "unlink_fault e (scratch_path e fileName) = None"
  shows "\<exists>t tr evs.
     (\<forall>w. record_audio e req w =
       (\<lparr>status = 200,
         body = [(''message'', Str ''Transcription successful''),
                 (''audioTranscription'', t), (''translatedText'', tr)]\<rparr>,
        w\<lparr>files := (files w)(scratch_path e fileName := None), trace := trace w @ evs\<rparr>))
     \<and> FsUnlink (scratch_path e fileName) \<in> set evs
     \<and> (\<forall>w. fst (speechToText e audioFile w) = Inr t)
     \<and> (\<forall>w. fst (translateText e t ''en'' w) = Inr tr)"
proof -
  let ?p = "scratch_path e fileName"
  from after_write_ok [OF uf, of audioFile]
  obtain t tr evs where a:
    "\<And>w. files w ?p \<noteq> None \<Longrightarrow> record_audio_after_write e audioFile ?p w =
       (Inr \<lparr>status = 200,
             body = [(''message'', Str ''Transcription successful''),
                     (''audioTranscription'', t), (''translatedText'', tr)]\<rparr>,
        w\<lparr>files := (files w)(?p := None), trace := trace w @ evs\<rparr>)"
    and b: "FsUnlink ?p \<in> set evs"
    and c: "\<forall>w. fst (speechToText e audioFile w) = Inr t"
    and d: "\<forall>w. fst (translateText e t ''en'' w) = Inr tr"
    by blast
  have "\<forall>w. record_audio e req w =
       (\<lparr>status = 200,
         body = [(''message'', Str ''Transcription successful''),
                 (''audioTranscription'', t), (''translatedText'', tr)]\<rparr>,
        w\<lparr>files := (files w)(?p := None), trace := trace w @ (FsWriteFile ?p # evs)\<rparr>)"
    by (simp add: record_audio_def record_audio_valid [OF v] writeFileSync_ok [OF wf] a)
  moreover have "FsUnlink ?p \<in> set (FsWriteFile ?p # evs)" using b by simp
  ultimately show ?thesis using c d by blast
qed

lemma record_audio_write_fault:
  assumes v: "req_file req = Some audioFile" "body_fileName req = Str fileName" "fileName \<noteq> []"
    and wf: "write_fault e (scratch_path e fileName) = Some err"
  shows "record_audio e req w =
       (\<lparr>status = 500, body = [(''error'', ErrorObj err)]\<rparr>,
        w\<lparr>trace := trace w @ [FsWriteFile (scratch_path e fileName),
                                ConsoleError ''Error processing audio:'' err]\<rparr>)"
  by (simp add: record_audio_def record_audio_valid [OF v] writeFileSync_fault [OF wf]
      send_500_duplicate console_error_def log_def)

lemma record_audio_unlink_fault:
  assumes v: "req_file req = Some audioFile" "body_fileName req = Str fileName" "fileName \<noteq> []"
    and wf: "write_fault e (scratch_path e fileName) = None"
    and uf: "unlink_fault e (scratch_path e fileName) = Some err"
  shows "\<exists>evs. (\<forall>w. record_audio e req w =
       (\<lparr>status = 500, body = [(''error'', ErrorObj err)]\<rparr>,
        w\<lparr>files := (files w)(scratch_path e fileName \<mapsto> buffer audioFile),
          trace := trace w @ evs\<rparr>))
     \<and> FsUnlink (scratch_path e fileName) \<in> set evs"
proof -
  let ?p = "scratch_path e fileName"
  from after_write_fault [OF uf, of audioFile]
  obtain evs where a:
    "\<And>w. record_audio_after_write e audioFile ?p w = (Inl err, w\<lparr>trace := trace w @ evs\<rparr>)"
    and b: "FsUnlink ?p \<in> set evs"
    by blast
  have "\<forall>w. record_audio e req w =
       (\<lparr>status = 500, body = [(''error'', ErrorObj err)]\<rparr>,
        w\<lparr>files := (files w)(?p \<mapsto> buffer audioFile),
          trace := trace w @ (FsWriteFile ?p # evs @ [ConsoleError ''Error processing audio:'' err])\<rparr>)"
    by (simp add: record_audio_def record_audio_valid [OF v] writeFileSync_ok [OF wf] a
        send_500_duplicate console_error_def log_def)
  moreover have "FsUnlink ?p \<in> set (FsWriteFile ?p # evs @ [ConsoleError ''Error processing audio:'' err])"
    using b by simp
  ultimately show ?thesis by blast
qed

lemma synthesize_valid:
  assumes "body_text req = Some text" and "text \<noteq> []"
  shows "synthesize_try e req w =
     (case synthesizer e text w of
        (Inl err, w1) \<Rightarrow> (Inl err, w1)
      | (Inr audioBuffer, w1) \<Rightarrow>
          (case writeFileSync e (path_join [audioFolder e, output_name (date_now e)]) audioBuffer w1 of
             (Inl err, w2) \<Rightarrow> (Inl err, w2)
           | (Inr _, w2) \<Rightarrow>
               (Inr (send 200
                  [(''audioURL'', Str (''http://localhost:3001/audio/'' @ output_name (date_now e)))]),
                w2)))"
  using assms by (simp add: synthesize_try_def field_value_def Let_def split: prod.split sum.split)


lemma synthesize_rejected:
  assumes v: "body_text req = Some text" "text \<noteq> []"
    and s: "synthesizeSpeech e (synthesis_request text) = Inl err"
  shows "synthesize e req w =
     (\<lparr>status = 500, body = [(''error'', Str ''Failed to synthesize text'')]\<rparr>,
      w\<lparr>trace := trace w @
          [CallSynthesizeSpeech (synthesis_request text),
           ConsoleError ''Error synthesizing speech:'' err,
           FsWriteFile (path_join [audioFolder e, output_name (date_now e)]),
           ConsoleError ''Error al sintetizar texto:'' invalid_data]\<rparr>)"
  by (simp add: synthesize_def synthesize_valid [OF v] synthesizer_rejected [OF s]
      writeFileSync_def log_def console_error_def send_single)

lemma req0_valid:
  "req_file req0 = Some upload0" "body_fileName req0 = Str ''a.webm''" "''a.webm'' \<noteq> []"
  by (simp_all add: req0_def)

lemma valid_split:
  obtains (invalid) "req_file req = None \<or> body_fileName req = Undefined \<or> body_fileName req = Str []"
  | (not_string) audioFile where "req_file req = Some audioFile" "truthy (body_fileName req)"
      "\<forall>s. body_fileName req \<noteq> Str s"
  | (valid) audioFile fileName where "req_file req = Some audioFile" "body_fileName req = Str fileName" "fileName \<noteq> []"
  by (cases "req_file req"; cases "body_fileName req") auto

lemma after_write_content_independent:
  assumes "files w1 p \<noteq> None" and "files w2 p \<noteq> None"
  shows "fst (record_audio_after_write e audioFile p w1) = fst (record_audio_after_write e audioFile p w2)
     \<and> (trace w1 = trace w2 \<longrightarrow>
          trace (snd (record_audio_after_write e audioFile p w1)) =
          trace (snd (record_audio_after_write e audioFile p w2)))"
proof (cases "unlink_fault e p")
  case None
  from after_write_ok [OF None, of audioFile] assms show ?thesis by auto
next
  case (Some err)
  from after_write_fault [OF Some, of audioFile] show ?thesis by auto
qed

lemma record_audio_world_independent:
  "fst (record_audio e req w1) = fst (record_audio e req w2)"
proof (cases req rule: valid_split)
  case invalid
  then show ?thesis by (simp add: record_audio_invalid)
next
  case (not_string audioFile)
  then show ?thesis by (simp add: record_audio_not_string)
next
  case (valid audioFile fileName)
  show ?thesis
  proof (cases "write_fault e (scratch_path e fileName)")
    case (Some err)
    then show ?thesis by (simp add: record_audio_write_fault [OF valid])
  next
    case None
    show ?thesis
    proof (cases "unlink_fault e (scratch_path e fileName)")
      case (Some err)
      from record_audio_unlink_fault [OF valid None Some] show ?thesis by auto
    next
      case n: None
      from record_audio_ok [OF valid None n] show ?thesis by auto
    qed
  qed
qed

lemma speechToText_try_succeeds_iff:
  "(\<exists>v. fst (speechToText_try e audioFile w) = Inr v) \<longleftrightarrow>
   (\<exists>response. recognize e (speech_request (base64 (buffer audioFile))) = Inr response
      \<and> (\<forall>r \<in> set (results response). alternatives r \<noteq> []))"
proof (cases "recognize e (speech_request (base64 (buffer audioFile)))")
  case (Inl err)
  then show ?thesis by (simp add: speechToText_try_def)
next
  case (Inr response)
  show ?thesis
  proof (cases "\<forall>r \<in> set (results response). alternatives r \<noteq> []")
    case True
    with Inr show ?thesis by (simp add: speechToText_try_def map_results_ok)
  next
    case False
    then obtain r where "r \<in> set (results response)" and "alternatives r = []" by blast
    from map_results_fails [OF this] obtain err where "map_results (results response) = Inl err"
      by blast
    with Inr False show ?thesis by (simp add: speechToText_try_def)
  qed
qed

lemma speechToText_segment_without_alternative:
  assumes "recognize e (speech_request (base64 (buffer audioFile))) = Inr response"
    and "r \<in> set (results response)" and "alternatives r = []"
  shows "fst (speechToText e audioFile w) = Inr Undefined"
proof -
  from map_results_fails [OF assms(2,3)] obtain err where "map_results (results response) = Inl err"
    by blast
  with assms(1) show ?thesis by (simp add: speechToText_def speechToText_try_def)
qed

subsection \<open>The handler among other requests\<close>

lemma meanwhile_Nil: "meanwhile [] w = w"
  by (simp add: meanwhile_def)

lemma record_audio_after_write_among_alone:
  "record_audio_after_write_among alone e audioFile p w = record_audio_after_write e audioFile p w"
  by (simp add: record_audio_after_write_among_def record_audio_after_write_def alone_def
      meanwhile_Nil split: prod.split sum.split)

lemma record_audio_among_alone: "record_audio_among alone e req w = record_audio e req w"
  by (simp add: record_audio_among_def record_audio_def record_audio_try_among_def
      record_audio_try_def record_audio_after_write_among_alone Let_def
      split: prod.split sum.split option.split)

lemma fold_apply_fs_op_Some:
  "fold apply_fs_op ops fs p = Some c \<Longrightarrow> fs p = Some c \<or> PutFile p c \<in> set ops"
proof (induction ops arbitrary: fs)
  case Nil
  then show ?case by simp
next
  case (Cons x ops)
  from Cons.prems have "fold apply_fs_op ops (apply_fs_op x fs) p = Some c" by simp
  from Cons.IH [OF this] show ?case
    by (cases x) (auto split: if_splits)
qed

lemma unlinkSync_succeeds:
  assumes "fst (unlinkSync e p w) = Inr ()"
  shows "unlinkSync e p w =
     (Inr (), w\<lparr>files := (files w)(p := None), trace := trace w @ [FsUnlink p]\<rparr>)"
proof (cases "unlink_fault e p")
  case (Some err)
  with assms show ?thesis by (simp add: unlinkSync_fault)
next
  case None
  with assms have "files w p \<noteq> None"
    by (auto simp: unlinkSync_def log_def Let_def split: if_splits)
  with None show ?thesis by (simp add: unlinkSync_ok)
qed

lemma writeFileSync_succeeds:
  assumes "fst (writeFileSync e p (Bytes b) w) = Inr ()"
  shows "writeFileSync e p (Bytes b) w =
     (Inr (), w\<lparr>files := (files w)(p \<mapsto> b), trace := trace w @ [FsWriteFile p]\<rparr>)"
proof (cases "write_fault e p")
  case (Some err)
  with assms show ?thesis by (simp add: writeFileSync_fault)
next
  case None
  then show ?thesis by (simp add: writeFileSync_ok)
qed

lemma unlinkSync_throws:
  assumes "fst (unlinkSync e p w) = Inl err"
  shows "unlinkSync e p w = (Inl err, w\<lparr>trace := trace w @ [FsUnlink p]\<rparr>)"
  using assms
  by (cases "unlink_fault e p") (auto simp: unlinkSync_def log_def Let_def split: if_splits)

lemma after_write_among_ok:
  assumes u: "fst (unlinkSync e p (meanwhile (during_transcription i) (snd (speechToText e audioFile w)))) = Inr ()"
  shows "\<exists>t tr evs.
     record_audio_after_write_among i e audioFile p w =
       (Inr \<lparr>status = 200,
             body = [(''message'', Str ''Transcription successful''),
                     (''audioTranscription'', t), (''translatedText'', tr)]\<rparr>,
        w\<lparr>files := fold apply_fs_op (during_translation i)
                      ((fold apply_fs_op (during_transcription i) (files w))(p := None)),
          trace := trace w @ evs\<rparr>)
     \<and> FsUnlink p \<in> set evs"
proof -
  obtain t evs1 where s: "\<And>w. speechToText e audioFile w = (Inr t, w\<lparr>trace := trace w @ evs1\<rparr>)"
    using speechToText_frame [of e audioFile] by blast
  obtain tr evs2 where r: "\<And>w. translateText e t ''en'' w = (Inr tr, w\<lparr>trace := trace w @ evs2\<rparr>)"
    using translateText_frame [of e t "''en''"] by blast
  let ?w1 = "meanwhile (during_transcription i) (w\<lparr>trace := trace w @ evs1\<rparr>)"
  from u have "fst (unlinkSync e p ?w1) = Inr ()" by (simp add: s)
  from unlinkSync_succeeds [OF this]
  have "record_audio_after_write_among i e audioFile p w =
       (Inr \<lparr>status = 200,
             body = [(''message'', Str ''Transcription successful''),
                     (''audioTranscription'', t), (''translatedText'', tr)]\<rparr>,
        w\<lparr>files := fold apply_fs_op (during_translation i)
                      ((fold apply_fs_op (during_transcription i) (files w))(p := None)),
          trace := trace w @ (evs1 @ FsUnlink p # evs2)\<rparr>)"
    by (simp add: record_audio_after_write_among_def s r send_200 meanwhile_def)
  moreover have "FsUnlink p \<in> set (evs1 @ FsUnlink p # evs2)" by simp
  ultimately show ?thesis by blast
qed

lemma after_write_among_throws:
  assumes u: "fst (unlinkSync e p (meanwhile (during_transcription i) (snd (speechToText e audioFile w)))) = Inl err"
  shows "\<exists>evs.
     record_audio_after_write_among i e audioFile p w =
       (Inl err,
        w\<lparr>files := fold apply_fs_op (during_transcription i) (files w), trace := trace w @ evs\<rparr>)
     \<and> FsUnlink p \<in> set evs"
proof -
  obtain t evs1 where s: "\<And>w. speechToText e audioFile w = (Inr t, w\<lparr>trace := trace w @ evs1\<rparr>)"
    using speechToText_frame [of e audioFile] by blast
  let ?w1 = "meanwhile (during_transcription i) (w\<lparr>trace := trace w @ evs1\<rparr>)"
  from u have "fst (unlinkSync e p ?w1) = Inl err" by (simp add: s)
  from unlinkSync_throws [OF this]
  have "record_audio_after_write_among i e audioFile p w =
       (Inl err,
        w\<lparr>files := fold apply_fs_op (during_transcription i) (files w),
          trace := trace w @ (evs1 @ [FsUnlink p])\<rparr>)"
    by (simp add: record_audio_after_write_among_def s meanwhile_def)
  moreover have "FsUnlink p \<in> set (evs1 @ [FsUnlink p])" by simp
  ultimately show ?thesis by blast
qed

lemma record_audio_among_invalid:
  assumes "req_file req = None \<or> body_fileName req = Undefined \<or> body_fileName req = Str []"
  shows "record_audio_among i e req w =
        (\<lparr>status = 400, body = [(''error'', Str ''Audio data and file name are required'')]\<rparr>, w)"
  using assms
  by (auto simp add: record_audio_among_def record_audio_try_among_def Let_def send_single)

lemma record_audio_among_not_string:
  assumes "req_file req = Some audioFile" and "truthy (body_fileName req)"
    and "\<forall>s. body_fileName req \<noteq> Str s"
  shows "record_audio_among i e req w =
       (\<lparr>status = 500, body = [(''error'', ErrorObj (TypeError ''ERR_INVALID_ARG_TYPE''))]\<rparr>,
        w\<lparr>trace := trace w @
            [ConsoleError ''Error processing audio:'' (TypeError ''ERR_INVALID_ARG_TYPE'')]\<rparr>)"
  using assms
  by (simp add: record_audio_among_def record_audio_try_among_def Let_def
      path_join_args_not_string send_500_duplicate console_error_def log_def)

lemma record_audio_among_valid:
  assumes "req_file req = Some audioFile" and "body_fileName req = Str fileName"
    and "fileName \<noteq> []"
  shows "record_audio_try_among i e req w =
     (case writeFileSync e (scratch_path e fileName) (Bytes (buffer audioFile)) w of
        (Inl err, w1) \<Rightarrow> (Inl err, w1)
      | (Inr _, w1) \<Rightarrow> record_audio_after_write_among i e audioFile (scratch_path e fileName) w1)"
  using assms by (simp add: record_audio_try_among_def Let_def path_join_args_scratch)

lemma record_audio_among_write_throws:
  assumes v: "req_file req = Some audioFile" "body_fileName req = Str fileName" "fileName \<noteq> []"
    and wr: "fst (writeFileSync e (scratch_path e fileName) (Bytes (buffer audioFile)) w) = Inl err"
  shows "fst (record_audio_among i e req w) = \<lparr>status = 500, body = [(''error'', ErrorObj err)]\<rparr>"
proof -
  from wr obtain w1 where "writeFileSync e (scratch_path e fileName) (Bytes (buffer audioFile)) w = (Inl err, w1)"
    by (cases "writeFileSync e (scratch_path e fileName) (Bytes (buffer audioFile)) w") auto
  then show ?thesis
    by (simp add: record_audio_among_def record_audio_among_valid [OF v] send_500_duplicate)
qed

lemma record_audio_among_unlink_throws:
  assumes v: "req_file req = Some audioFile" "body_fileName req = Str fileName" "fileName \<noteq> []"
    and wr: "fst (writeFileSync e (scratch_path e fileName) (Bytes (buffer audioFile)) w) = Inr ()"
    and u: "fst (unlinkSync e (scratch_path e fileName)
           (meanwhile (during_transcription i)
              (snd (speechToText e audioFile
                 (snd (writeFileSync e (scratch_path e fileName) (Bytes (buffer audioFile)) w)))))) = Inl err"
  shows "fst (record_audio_among i e req w) = \<lparr>status = 500, body = [(''error'', ErrorObj err)]\<rparr>
     \<and> FsUnlink (scratch_path e fileName) \<in> set (trace (snd (record_audio_among i e req w)))"
proof -
  let ?p = "scratch_path e fileName"
  from wr obtain w1 where w: "writeFileSync e ?p (Bytes (buffer audioFile)) w = (Inr (), w1)"
    by (cases "writeFileSync e ?p (Bytes (buffer audioFile)) w") auto
  from u have "fst (unlinkSync e ?p (meanwhile (during_transcription i) (snd (speechToText e audioFile w1)))) = Inl err"
    by (simp add: w)
  from after_write_among_throws [OF this] obtain evs where
    a: "record_audio_after_write_among i e audioFile ?p w1 =
         (Inl err, w1\<lparr>files := fold apply_fs_op (during_transcription i) (files w1),
                      trace := trace w1 @ evs\<rparr>)"
    and b: "FsUnlink ?p \<in> set evs"
    by blast
  show ?thesis using b
    by (simp add: record_audio_among_def record_audio_among_valid [OF v] w a send_500_duplicate
        console_error_def log_def)
qed

lemma record_audio_among_unlink_returns:
  assumes v: "req_file req = Some audioFile" "body_fileName req = Str fileName" "fileName \<noteq> []"
    and wr: "fst (writeFileSync e (scratch_path e fileName) (Bytes (buffer audioFile)) w) = Inr ()"
    and u: "fst (unlinkSync e (scratch_path e fileName)
           (meanwhile (during_transcription i)
              (snd (speechToText e audioFile
                 (snd (writeFileSync e (scratch_path e fileName) (Bytes (buffer audioFile)) w)))))) = Inr ()"
  shows "status (fst (record_audio_among i e req w)) = 200
     \<and> FsUnlink (scratch_path e fileName) \<in> set (trace (snd (record_audio_among i e req w)))"
proof -
  let ?p = "scratch_path e fileName"
  from wr obtain w1 where w: "writeFileSync e ?p (Bytes (buffer audioFile)) w = (Inr (), w1)"
    by (cases "writeFileSync e ?p (Bytes (buffer audioFile)) w") auto
  from u have "fst (unlinkSync e ?p (meanwhile (during_transcription i) (snd (speechToText e audioFile w1)))) = Inr ()"
    by (simp add: w)
  from after_write_among_ok [OF this] obtain t tr evs where
    a: "record_audio_after_write_among i e audioFile ?p w1 =
       (Inr \<lparr>status = 200,
             body = [(''message'', Str ''Transcription successful''),
                     (''audioTranscription'', t), (''translatedText'', tr)]\<rparr>,
        w1\<lparr>files := fold apply_fs_op (during_translation i)
                      ((fold apply_fs_op (during_transcription i) (files w1))(?p := None)),
          trace := trace w1 @ evs\<rparr>)"
    and b: "FsUnlink ?p \<in> set evs"
    by blast
  show ?thesis using b
    by (simp add: record_audio_among_def record_audio_among_valid [OF v] w a)
qed

section \<open>The properties\<close>

subsection \<open>Missing input\<close>

text \<open>
  C1. A request to \<^verbatim>\<open>POST /api/record_audio\<close> without the \<^verbatim>\<open>audioData\<close> file or
  without the \<^verbatim>\<open>fileName\<close> field, and a request to \<^verbatim>\<open>POST /api/synthesize\<close> without
  the \<^verbatim>\<open>text\<close> field, is answered with status 400 and a body whose only field is
  \<^verbatim>\<open>error\<close>. The world returned is the world received: nothing was added to the trace
  (no external service was called, \<^verbatim>\<open>fs\<close> was not called) and no file has changed.
\<close>

theorem missing_input_rejected:
  "(req_file req = None \<or> body_fileName req = Undefined \<longrightarrow>
      record_audio e req w =
        (\<lparr>status = 400, body = [(''error'', Str ''Audio data and file name are required'')]\<rparr>, w))
   \<and> (body_text sreq = None \<longrightarrow>
      synthesize e sreq w =
        (\<lparr>status = 400, body = [(''error'', Str ''Text is required for synthesis'')]\<rparr>, w))"
  by (auto simp add: record_audio_def record_audio_try_def synthesize_def synthesize_try_def
      field_value_def Let_def send_single)

theorem missing_input_rejected_witness:
  "record_audio env0 (req0\<lparr>body_fileName := Undefined\<rparr>) w0 =
        (\<lparr>status = 400, body = [(''error'', Str ''Audio data and file name are required'')]\<rparr>, w0)
   \<and> record_audio env0 (req0\<lparr>req_file := None\<rparr>) w0 =
        (\<lparr>status = 400, body = [(''error'', Str ''Audio data and file name are required'')]\<rparr>, w0)
   \<and> synthesize env0 \<lparr>body_text = None\<rparr> w0 =
        (\<lparr>status = 400, body = [(''error'', Str ''Text is required for synthesis'')]\<rparr>, w0)"
  using missing_input_rejected [of "req0\<lparr>body_fileName := Undefined\<rparr>" env0 w0 "\<lparr>body_text = None\<rparr>"]
        missing_input_rejected [of "req0\<lparr>req_file := None\<rparr>" env0 w0 "\<lparr>body_text = None\<rparr>"]
  by simp

text \<open>
  C9. The checks test truthiness: a \<^verbatim>\<open>fileName\<close> that is the empty string, and a
  \<^verbatim>\<open>text\<close> that is the empty string, are answered exactly as an absent field is, with
  status 400 and the world unchanged.
\<close>

theorem empty_string_rejected_as_absent:
  "record_audio e (req\<lparr>body_fileName := Str []\<rparr>) w = record_audio e (req\<lparr>body_fileName := Undefined\<rparr>) w
   \<and> record_audio e (req\<lparr>body_fileName := Str []\<rparr>) w =
        (\<lparr>status = 400, body = [(''error'', Str ''Audio data and file name are required'')]\<rparr>, w)
   \<and> synthesize e (sreq\<lparr>body_text := Some []\<rparr>) w = synthesize e (sreq\<lparr>body_text := None\<rparr>) w
   \<and> synthesize e (sreq\<lparr>body_text := Some []\<rparr>) w =
        (\<lparr>status = 400, body = [(''error'', Str ''Text is required for synthesis'')]\<rparr>, w)"
  by (simp add: record_audio_def record_audio_try_def synthesize_def synthesize_try_def
      field_value_def Let_def send_single)

theorem empty_string_rejected_as_absent_witness:
  "record_audio env0 (req0\<lparr>body_fileName := Str []\<rparr>) w0 =
     record_audio env0 (req0\<lparr>body_fileName := Undefined\<rparr>) w0
   \<and> record_audio env0 (req0\<lparr>body_fileName := Str []\<rparr>) w0 =
        (\<lparr>status = 400, body = [(''error'', Str ''Audio data and file name are required'')]\<rparr>, w0)
   \<and> synthesize env0 (sreq0\<lparr>body_text := Some []\<rparr>) w0 =
     synthesize env0 (sreq0\<lparr>body_text := None\<rparr>) w0
   \<and> synthesize env0 (sreq0\<lparr>body_text := Some []\<rparr>) w0 =
        (\<lparr>status = 400, body = [(''error'', Str ''Text is required for synthesis'')]\<rparr>, w0)"
  by (rule empty_string_rejected_as_absent)

subsection \<open>The adapters swallow every failure\<close>

text \<open>
  C6. When the call to the transcription service succeeds and every recognised segment
  carries at least one alternative, \<^verbatim>\<open>speechToText\<close> returns the transcripts of the first
  alternative of each segment, joined by single spaces. These two conditions say that the
  \<^verbatim>\<open>try\<close> block runs to its \<^verbatim>\<open>return\<close> (\<open>speechToText_try_succeeds_iff\<close>): a reply
  with a segment that has no alternative makes the callback of \<^verbatim>\<open>map\<close> throw, and the
  adapter returns \<^verbatim>\<open>undefined\<close> (\<open>speechToText_segment_without_alternative\<close>).
\<close>

theorem speechToText_space_joined:
  assumes "recognize e (speech_request (base64 (buffer audioFile))) = Inr response"
    and "\<forall>r \<in> set (results response). alternatives r \<noteq> []"
  shows "fst (speechToText e audioFile w) = Inr (Str (space_joined (first_transcripts response)))"
  using assms
  by (simp add: speechToText_def speechToText_try_def Let_def map_results_ok array_join_space
      first_transcripts_def)

theorem speechToText_space_joined_witness:
  "recognize env0 (speech_request (base64 (buffer upload0))) = Inr response0
   \<and> [] \<notin> set (map alternatives (results response0))
   \<and> fst (speechToText env0 upload0 w0) = Inr (Str ''hola mundo'')"
proof -
  have h1: "recognize env0 (speech_request (base64 (buffer upload0))) = Inr response0"
    by (simp add: env0_def)
  have h2: "\<forall>r \<in> set (results response0). alternatives r \<noteq> []"
    by (simp add: response0_def)
  have "fst (speechToText env0 upload0 w0) = Inr (Str (space_joined (first_transcripts response0)))"
    by (rule speechToText_space_joined [OF h1 h2])
  moreover have "space_joined (first_transcripts response0) = ''hola mundo''"
    by (simp add: first_transcripts_def response0_def)
  moreover have "[] \<notin> set (map alternatives (results response0))"
    by (simp add: response0_def)
  ultimately show ?thesis using h1 by simp
qed

text \<open>
  C2, as stated, fails: the request is valid, the transcription call is rejected and the
  adapter returns \<^verbatim>\<open>undefined\<close>, and then \<^verbatim>\<open>fs.unlinkSync\<close> throws. The handler
  answers 500, not 200.
\<close>

theorem service_failure_and_failed_unlink:
  "req_file req0 = Some upload0 \<and> body_fileName req0 = Str ''a.webm''
   \<and> recognize env_service_down_unlink_refused (speech_request (base64 (buffer upload0))) =
        Inl (ServiceError ''UNAVAILABLE'')
   \<and> fst (speechToText env_service_down_unlink_refused upload0 w0) = Inr Undefined
   \<and> fst (record_audio env_service_down_unlink_refused req0 w0) =
        \<lparr>status = 500, body = [(''error'', ErrorObj (SystemError ''EPERM'' ''unlink''))]\<rparr>"
proof -
  have wf: "write_fault env_service_down_unlink_refused
              (scratch_path env_service_down_unlink_refused ''a.webm'') = None"
    by (simp add: env_service_down_unlink_refused_def env_service_down_def env0_def)
  have uf: "unlink_fault env_service_down_unlink_refused
              (scratch_path env_service_down_unlink_refused ''a.webm'') =
              Some (SystemError ''EPERM'' ''unlink'')"
    by (simp add: env_service_down_unlink_refused_def env_service_down_def env0_def)
  have r: "recognize env_service_down_unlink_refused (speech_request (base64 (buffer upload0))) =
             Inl (ServiceError ''UNAVAILABLE'')"
    by (simp add: env_service_down_unlink_refused_def env_service_down_def env0_def)
  from record_audio_unlink_fault [OF req0_valid wf uf] speechToText_rejected [OF r, of w0] r
  show ?thesis by (auto simp: req0_def)
qed

text \<open>
  C2, amended. For a valid request whose scratch file is written and deleted without an
  exception, the handler answers 200 whatever the services do. The field
  \<^verbatim>\<open>audioTranscription\<close> is what \<^verbatim>\<open>speechToText\<close> returned, which is
  \<^verbatim>\<open>undefined\<close> when the transcription call failed; the field \<^verbatim>\<open>translatedText\<close> is
  what \<^verbatim>\<open>translateText\<close> returned for that transcription, which is \<^verbatim>\<open>undefined\<close>
  when the translation call failed.
\<close>

theorem service_failure_still_200:
  assumes "req_file req = Some audioFile" and "body_fileName req = Str fileName"
    and "fileName \<noteq> []"
    and "write_fault e (scratch_path e fileName) = None"
    and "unlink_fault e (scratch_path e fileName) = None"
  shows "\<exists>t tr.
     fst (record_audio e req w) =
       \<lparr>status = 200,
        body = [(''message'', Str ''Transcription successful''),
                (''audioTranscription'', t), (''translatedText'', tr)]\<rparr>
     \<and> fst (speechToText e audioFile w) = Inr t
     \<and> fst (translateText e t ''en'' w) = Inr tr
     \<and> ((\<exists>err. recognize e (speech_request (base64 (buffer audioFile))) = Inl err) \<longrightarrow> t = Undefined)
     \<and> ((\<exists>err. translate e t ''en'' = Inl err) \<longrightarrow> tr = Undefined)"
proof -
  from record_audio_ok [OF assms]
  obtain t tr evs where r: "\<And>w. record_audio e req w =
       (\<lparr>status = 200,
         body = [(''message'', Str ''Transcription successful''),
                 (''audioTranscription'', t), (''translatedText'', tr)]\<rparr>,
        w\<lparr>files := (files w)(scratch_path e fileName := None), trace := trace w @ evs\<rparr>)"
    and s: "\<And>w. fst (speechToText e audioFile w) = Inr t"
    and l: "\<And>w. fst (translateText e t ''en'' w) = Inr tr"
    by blast
  have "(\<exists>err. recognize e (speech_request (base64 (buffer audioFile))) = Inl err) \<longrightarrow> t = Undefined"
    using speechToText_rejected [of e audioFile _ w] s [of w] by auto
  moreover have "(\<exists>err. translate e t ''en'' = Inl err) \<longrightarrow> tr = Undefined"
    using translateText_rejected [of e t "''en''" _ w] l [of w] by auto
  ultimately show ?thesis using r s l by simp
qed

theorem service_failure_still_200_witness:
  "recognize env_service_down (speech_request (base64 (buffer upload0))) = Inl (ServiceError ''UNAVAILABLE'')
   \<and> translate env_service_down Undefined ''en'' = Inl (ServiceError ''UNAVAILABLE'')
   \<and> fst (record_audio env_service_down req0 w0) =
       \<lparr>status = 200,
        body = [(''message'', Str ''Transcription successful''),
                (''audioTranscription'', Undefined), (''translatedText'', Undefined)]\<rparr>"
proof -
  have wf: "write_fault env_service_down (scratch_path env_service_down ''a.webm'') = None"
    by (simp add: env_service_down_def env0_def)
  have uf: "unlink_fault env_service_down (scratch_path env_service_down ''a.webm'') = None"
    by (simp add: env_service_down_def env0_def)
  have r: "recognize env_service_down (speech_request (base64 (buffer upload0))) = Inl (ServiceError ''UNAVAILABLE'')"
    by (simp add: env_service_down_def env0_def)
  have l: "translate env_service_down Undefined ''en'' = Inl (ServiceError ''UNAVAILABLE'')"
    by (simp add: env_service_down_def env0_def)
  from service_failure_still_200 [OF req0_valid wf uf, of w0] r l show ?thesis by auto
qed

text \<open>
  C10, as stated, fails: when the form sends the field \<^verbatim>\<open>fileName\<close> twice, multer hands
  the handler an array. It passes the check of line 111, \<^verbatim>\<open>path.join\<close> throws a
  \<^verbatim>\<open>TypeError\<close> inside the \<^verbatim>\<open>try\<close>, and the route answers 500 although \<^verbatim>\<open>fs\<close> was
  never called: the trace holds the line of \<^verbatim>\<open>console.error\<close> only.
\<close>

theorem repeated_fileName_gives_500:
  "req_file req_repeated = Some upload0
   \<and> truthy (body_fileName req_repeated)
   \<and> fst (record_audio_among alone env0 req_repeated w0) =
        \<lparr>status = 500, body = [(''error'', ErrorObj (TypeError ''ERR_INVALID_ARG_TYPE''))]\<rparr>
   \<and> trace (snd (record_audio_among alone env0 req_repeated w0)) =
        [ConsoleError ''Error processing audio:'' (TypeError ''ERR_INVALID_ARG_TYPE'')]
   \<and> files (snd (record_audio_among alone env0 req_repeated w0)) = files w0"
proof -
  have a: "req_file req_repeated = Some upload0" by (simp add: req_repeated_def)
  have b: "truthy (body_fileName req_repeated)" by (simp add: req_repeated_def)
  have c: "\<forall>s. body_fileName req_repeated \<noteq> Str s" by (simp add: req_repeated_def)
  show ?thesis using a b by (simp add: record_audio_among_not_string [OF a b c] w0_def)
qed

text \<open>
  C10, amended. \<^verbatim>\<open>speechToText\<close> and \<^verbatim>\<open>translateText\<close> never throw: in every world they
  return a value, and the value is \<^verbatim>\<open>undefined\<close> whenever something is thrown inside
  their \<^verbatim>\<open>try\<close> block. Hence, in \<^verbatim>\<open>/api/record_audio\<close>, whatever other requests do
  meanwhile, once the scratch file is written the deletion step is reached (its call is in
  the trace), and a response with status 500 carries the error thrown by \<^verbatim>\<open>path.join\<close>
  (a \<^verbatim>\<open>fileName\<close> that is not a string), by \<^verbatim>\<open>fs.writeFileSync\<close> or by
  \<^verbatim>\<open>fs.unlinkSync\<close>, whatever the transcription and translation calls did.
\<close>

theorem adapters_never_throw:
  "(\<exists>v. fst (speechToText e upload w) = Inr v)
   \<and> ((\<exists>err. fst (speechToText_try e upload w) = Inl err) \<longrightarrow>
        fst (speechToText e upload w) = Inr Undefined)
   \<and> (\<exists>v. fst (translateText e text textLang w) = Inr v)
   \<and> ((\<exists>err. fst (translateText_try e text textLang w) = Inl err) \<longrightarrow>
        fst (translateText e text textLang w) = Inr Undefined)
   \<and> (req_file req = Some audioFile \<and> body_fileName req = Str fileName \<and> fileName \<noteq> []
        \<and> fst (writeFileSync e (scratch_path e fileName) (Bytes (buffer audioFile)) w) = Inr ()
      \<longrightarrow> FsUnlink (scratch_path e fileName) \<in> set (trace (snd (record_audio_among i e req w))))
   \<and> (status (fst (record_audio_among i e req w)) = 500 \<longrightarrow>
        (\<exists>audioFile err.
            req_file req = Some audioFile
          \<and> body (fst (record_audio_among i e req w)) = [(''error'', ErrorObj err)]
          \<and> (path_join_args [Str (dirname e), Str ''audio_files'', body_fileName req] = Inl err
              \<or> (\<exists>filePath.
                   path_join_args [Str (dirname e), Str ''audio_files'', body_fileName req] = Inr filePath
                 \<and> (fst (writeFileSync e filePath (Bytes (buffer audioFile)) w) = Inl err
                     \<or> (fst (writeFileSync e filePath (Bytes (buffer audioFile)) w) = Inr ()
                         \<and> fst (unlinkSync e filePath
                                 (meanwhile (during_transcription i)
                                    (snd (speechToText e audioFile
                                       (snd (writeFileSync e filePath (Bytes (buffer audioFile)) w))))))
                             = Inl err))))))"
proof -
  have a: "\<exists>v. fst (speechToText e upload w) = Inr v"
    using speechToText_frame [of e upload] by auto
  have a': "(\<exists>err. fst (speechToText_try e upload w) = Inl err) \<longrightarrow>
        fst (speechToText e upload w) = Inr Undefined"
    by (cases "speechToText_try e upload w") (auto simp: speechToText_def)
  have b: "\<exists>v. fst (translateText e text textLang w) = Inr v"
    using translateText_frame [of e "text" textLang] by auto
  have b': "(\<exists>err. fst (translateText_try e text textLang w) = Inl err) \<longrightarrow>
        fst (translateText e text textLang w) = Inr Undefined"
    by (cases "translateText_try e text textLang w") (auto simp: translateText_def)
  have c: "FsUnlink (scratch_path e fileName) \<in> set (trace (snd (record_audio_among i e req w)))"
    if v: "req_file req = Some audioFile" "body_fileName req = Str fileName" "fileName \<noteq> []"
      and wr: "fst (writeFileSync e (scratch_path e fileName) (Bytes (buffer audioFile)) w) = Inr ()"
  proof (cases "fst (unlinkSync e (scratch_path e fileName)
           (meanwhile (during_transcription i)
              (snd (speechToText e audioFile
                 (snd (writeFileSync e (scratch_path e fileName) (Bytes (buffer audioFile)) w))))))")
    case (Inl err)
    from record_audio_among_unlink_throws [OF v wr Inl] show ?thesis by simp
  next
    case (Inr u)
    then have "fst (unlinkSync e (scratch_path e fileName)
           (meanwhile (during_transcription i)
              (snd (speechToText e audioFile
                 (snd (writeFileSync e (scratch_path e fileName) (Bytes (buffer audioFile)) w)))))) = Inr ()"
      by simp
    from record_audio_among_unlink_returns [OF v wr this] show ?thesis by simp
  qed
  have d: "\<exists>audioFile err.
            req_file req = Some audioFile
          \<and> body (fst (record_audio_among i e req w)) = [(''error'', ErrorObj err)]
          \<and> (path_join_args [Str (dirname e), Str ''audio_files'', body_fileName req] = Inl err
              \<or> (\<exists>filePath.
                   path_join_args [Str (dirname e), Str ''audio_files'', body_fileName req] = Inr filePath
                 \<and> (fst (writeFileSync e filePath (Bytes (buffer audioFile)) w) = Inl err
                     \<or> (fst (writeFileSync e filePath (Bytes (buffer audioFile)) w) = Inr ()
                         \<and> fst (unlinkSync e filePath
                                 (meanwhile (during_transcription i)
                                    (snd (speechToText e audioFile
                                       (snd (writeFileSync e filePath (Bytes (buffer audioFile)) w))))))
                             = Inl err))))"
    if st: "status (fst (record_audio_among i e req w)) = 500"
  proof (cases req rule: valid_split)
    case invalid
    with st show ?thesis by (simp add: record_audio_among_invalid)
  next
    case (not_string audioFile)
    from record_audio_among_not_string [OF this, of i e w] not_string show ?thesis
      by (auto simp: path_join_args_not_string)
  next
    case (valid audioFile fileName)
    let ?p = "scratch_path e fileName"
    have p: "path_join_args [Str (dirname e), Str ''audio_files'', body_fileName req] = Inr ?p"
      by (simp add: valid(2) path_join_args_scratch)
    show ?thesis
    proof (cases "fst (writeFileSync e ?p (Bytes (buffer audioFile)) w)")
      case (Inl err)
      from record_audio_among_write_throws [OF valid Inl, of i]
      have "body (fst (record_audio_among i e req w)) = [(''error'', ErrorObj err)]" by simp
      with valid(1) p Inl show ?thesis by blast
    next
      case (Inr u)
      then have wr: "fst (writeFileSync e ?p (Bytes (buffer audioFile)) w) = Inr ()" by simp
      show ?thesis
      proof (cases "fst (unlinkSync e ?p
           (meanwhile (during_transcription i)
              (snd (speechToText e audioFile (snd (writeFileSync e ?p (Bytes (buffer audioFile)) w))))))")
        case (Inl err)
        from record_audio_among_unlink_throws [OF valid wr Inl]
        have "body (fst (record_audio_among i e req w)) = [(''error'', ErrorObj err)]" by simp
        with valid(1) p wr Inl show ?thesis by blast
      next
        case (Inr u')
        then have "fst (unlinkSync e ?p
           (meanwhile (during_transcription i)
              (snd (speechToText e audioFile (snd (writeFileSync e ?p (Bytes (buffer audioFile)) w)))))) = Inr ()"
          by simp
        from record_audio_among_unlink_returns [OF valid wr this] st show ?thesis by simp
      qed
    qed
  qed
  from a a' b b' c d show ?thesis by blast
qed

theorem adapters_never_throw_witness:
  "recognize env_service_down_unlink_refused (speech_request (base64 (buffer upload0))) =
        Inl (ServiceError ''UNAVAILABLE'')
   \<and> fst (speechToText_try env_service_down_unlink_refused upload0 w0) =
        Inl (ServiceError ''UNAVAILABLE'')
   \<and> fst (speechToText env_service_down_unlink_refused upload0 w0) = Inr Undefined
   \<and> fst (writeFileSync env_service_down_unlink_refused
             (scratch_path env_service_down_unlink_refused ''a.webm'') (Bytes (buffer upload0)) w0) = Inr ()
   \<and> FsUnlink (scratch_path env_service_down_unlink_refused ''a.webm'')
        \<in> set (trace (snd (record_audio_among alone env_service_down_unlink_refused req0 w0)))
   \<and> status (fst (record_audio_among alone env_service_down_unlink_refused req0 w0)) = 500
   \<and> body (fst (record_audio_among alone env_service_down_unlink_refused req0 w0)) =
        [(''error'', ErrorObj (SystemError ''EPERM'' ''unlink''))]
   \<and> fst (unlinkSync env_service_down_unlink_refused
             (scratch_path env_service_down_unlink_refused ''a.webm'') w0) =
        Inl (SystemError ''EPERM'' ''unlink'')"
proof -
  let ?e = env_service_down_unlink_refused
  let ?p = "scratch_path ?e ''a.webm''"
  have wf: "write_fault ?e ?p = None"
    by (simp add: env_service_down_unlink_refused_def env_service_down_def env0_def)
  have uf: "unlink_fault ?e ?p = Some (SystemError ''EPERM'' ''unlink'')"
    by (simp add: env_service_down_unlink_refused_def env_service_down_def env0_def)
  have r: "recognize ?e (speech_request (base64 (buffer upload0))) = Inl (ServiceError ''UNAVAILABLE'')"
    by (simp add: env_service_down_unlink_refused_def env_service_down_def env0_def)
  have t: "fst (speechToText_try ?e upload0 w0) = Inl (ServiceError ''UNAVAILABLE'')"
    by (simp add: speechToText_try_def r)
  have wr: "fst (writeFileSync ?e ?p (Bytes (buffer upload0)) w0) = Inr ()"
    by (simp add: writeFileSync_ok [OF wf])
  have u: "fst (unlinkSync ?e ?p
           (meanwhile (during_transcription alone)
              (snd (speechToText ?e upload0 (snd (writeFileSync ?e ?p (Bytes (buffer upload0)) w0))))))
           = Inl (SystemError ''EPERM'' ''unlink'')"
    by (simp add: unlinkSync_fault [OF uf])
  have st: "fst (record_audio_among alone ?e req0 w0) =
              \<lparr>status = 500, body = [(''error'', ErrorObj (SystemError ''EPERM'' ''unlink''))]\<rparr>"
    using record_audio_among_unlink_throws [OF req0_valid wr u] by simp
  note inst = adapters_never_throw [of ?e upload0 w0 Undefined "''en''" req0 upload0 "''a.webm''" alone]
  from inst t have "fst (speechToText ?e upload0 w0) = Inr Undefined" by blast
  moreover from inst req0_valid wr
  have "FsUnlink ?p \<in> set (trace (snd (record_audio_among alone ?e req0 w0)))"
    by blast
  ultimately show ?thesis using r t wr st by (simp add: unlinkSync_fault [OF uf])
qed

subsection \<open>The scratch file\<close>

text \<open>
  C3, as stated, fails twice. A request whose \<^verbatim>\<open>fileName\<close> field is present and empty
  is answered 400 although no step throws. And when the upload is valid, the scratch file
  is written and the transcription returns, \<^verbatim>\<open>fs.unlinkSync\<close> itself can throw: no step
  before the deletion has thrown, yet the status is 500 and the scratch file is still
  there.
\<close>

theorem empty_fileName_400_failed_unlink_500:
  "req_file (req0\<lparr>body_fileName := Str []\<rparr>) = Some upload0
   \<and> body_fileName (req0\<lparr>body_fileName := Str []\<rparr>) = Str []
   \<and> status (fst (record_audio_among alone env0 (req0\<lparr>body_fileName := Str []\<rparr>) w0)) = 400
   \<and> req_file req0 = Some upload0 \<and> body_fileName req0 = Str ''a.webm''
   \<and> fst (writeFileSync env_unlink_refused (scratch_path env_unlink_refused ''a.webm'')
            (Bytes (buffer upload0)) w0) = Inr ()
   \<and> fst (speechToText env_unlink_refused upload0 w0) = Inr (Str ''hola mundo'')
   \<and> status (fst (record_audio_among alone env_unlink_refused req0 w0)) = 500
   \<and> files (snd (record_audio_among alone env_unlink_refused req0 w0))
        (scratch_path env_unlink_refused ''a.webm'') = Some (buffer upload0)"
proof -
  have e: "status (fst (record_audio_among alone env0 (req0\<lparr>body_fileName := Str []\<rparr>) w0)) = 400"
    by (simp add: record_audio_among_alone record_audio_invalid)
  have wf: "write_fault env_unlink_refused (scratch_path env_unlink_refused ''a.webm'') = None"
    by (simp add: env_unlink_refused_def env0_def)
  have uf: "unlink_fault env_unlink_refused (scratch_path env_unlink_refused ''a.webm'') =
              Some (SystemError ''EPERM'' ''unlink'')"
    by (simp add: env_unlink_refused_def env0_def)
  have r: "recognize env_unlink_refused (speech_request (base64 (buffer upload0))) = Inr response0"
    by (simp add: env_unlink_refused_def env0_def)
  have s: "fst (speechToText env_unlink_refused upload0 w0) = Inr (Str ''hola mundo'')"
    by (simp add: speechToText_def speechToText_try_def r response0_def best_transcript_def
        array_join_Cons)
  from record_audio_unlink_fault [OF req0_valid wf uf] s e show ?thesis
    by (auto simp: req0_def writeFileSync_ok [OF wf] record_audio_among_alone)
qed

text \<open>
  C3, amended. Take a request with the \<^verbatim>\<open>audioData\<close> file and a non-empty
  \<^verbatim>\<open>fileName\<close>, run while other requests write and remove files, in which no step up to
  and including the deletion step throws: \<^verbatim>\<open>path.join\<close> returns the path,
  \<^verbatim>\<open>fs.writeFileSync\<close> writes the scratch file, and \<^verbatim>\<open>fs.unlinkSync\<close> returns. Then the
  status is 200 and the scratch file that was written no longer exists when the response is
  sent: the deletion step removed it, so a file is at \<^verbatim>\<open><scratch>/<fileName>\<close> then only if
  another request wrote one there while the handler awaited the translation.
\<close>

theorem scratch_file_deleted:
  assumes "req_file req = Some audioFile"
    and "truthy (body_fileName req)"
    and "path_join_args [Str (dirname e), Str ''audio_files'', body_fileName req] = Inr filePath"
    and "fst (writeFileSync e filePath (Bytes (buffer audioFile)) w) = Inr ()"
    and "fst (unlinkSync e filePath
           (meanwhile (during_transcription i)
              (snd (speechToText e audioFile
                 (snd (writeFileSync e filePath (Bytes (buffer audioFile)) w)))))) = Inr ()"
  shows "status (fst (record_audio_among i e req w)) = 200
     \<and> (\<forall>c. files (snd (record_audio_among i e req w)) filePath = Some c \<longrightarrow>
            PutFile filePath c \<in> set (during_translation i))
     \<and> ((\<forall>c. PutFile filePath c \<notin> set (during_translation i)) \<longrightarrow>
            files (snd (record_audio_among i e req w)) filePath = None)"
proof -
  let ?w1 = "snd (writeFileSync e filePath (Bytes (buffer audioFile)) w)"
  from after_write_among_ok [OF assms(5)]
  obtain t tr evs where a:
    "record_audio_after_write_among i e audioFile filePath ?w1 =
       (Inr \<lparr>status = 200,
             body = [(''message'', Str ''Transcription successful''),
                     (''audioTranscription'', t), (''translatedText'', tr)]\<rparr>,
        ?w1\<lparr>files := fold apply_fs_op (during_translation i)
                      ((fold apply_fs_op (during_transcription i) (files ?w1))(filePath := None)),
           trace := trace ?w1 @ evs\<rparr>)"
    by blast
  from assms(4) obtain w1 where wr: "writeFileSync e filePath (Bytes (buffer audioFile)) w = (Inr (), w1)"
    by (cases "writeFileSync e filePath (Bytes (buffer audioFile)) w") auto
  then have w1: "?w1 = w1" by simp
  have r: "record_audio_among i e req w =
       (\<lparr>status = 200,
         body = [(''message'', Str ''Transcription successful''),
                 (''audioTranscription'', t), (''translatedText'', tr)]\<rparr>,
        w1\<lparr>files := fold apply_fs_op (during_translation i)
                      ((fold apply_fs_op (during_transcription i) (files w1))(filePath := None)),
          trace := trace w1 @ evs\<rparr>)"
    using assms(1,2,3) a
    by (simp add: record_audio_among_def record_audio_try_among_def Let_def wr w1)
  have f: "PutFile filePath c \<in> set (during_translation i)"
    if "files (snd (record_audio_among i e req w)) filePath = Some c" for c
  proof -
    from that have "fold apply_fs_op (during_translation i)
        ((fold apply_fs_op (during_transcription i) (files w1))(filePath := None)) filePath = Some c"
      by (simp add: r)
    from fold_apply_fs_op_Some [OF this] show ?thesis by simp
  qed
  have g: "files (snd (record_audio_among i e req w)) filePath = None"
    if n: "\<forall>c. PutFile filePath c \<notin> set (during_translation i)"
  proof (cases "files (snd (record_audio_among i e req w)) filePath")
    case None
    then show ?thesis .
  next
    case (Some c)
    from f [OF this] n show ?thesis by blast
  qed
  from r f g show ?thesis by simp
qed

theorem scratch_file_deleted_witness:
  "req_file req0 = Some upload0
   \<and> truthy (body_fileName req0)
   \<and> path_join_args [Str (dirname env0), Str ''audio_files'', body_fileName req0] =
        Inr (scratch_path env0 ''a.webm'')
   \<and> status (fst (record_audio_among
        \<lparr>during_transcription = [PutFile (scratch_path env0 ''a.webm'') [1, 2]],
         during_translation = []\<rparr> env0 req0 w0)) = 200
   \<and> files (snd (record_audio_among
        \<lparr>during_transcription = [PutFile (scratch_path env0 ''a.webm'') [1, 2]],
         during_translation = []\<rparr> env0 req0 w0)) (scratch_path env0 ''a.webm'') = None"
proof -
  let ?p = "scratch_path env0 ''a.webm''"
  let ?i = "\<lparr>during_transcription = [PutFile ?p [1, 2]], during_translation = []\<rparr>"
  have a: "req_file req0 = Some upload0" by (simp add: req0_def)
  have b: "truthy (body_fileName req0)" by (simp add: req0_def)
  have c: "path_join_args [Str (dirname env0), Str ''audio_files'', body_fileName req0] = Inr ?p"
    by (simp add: req0_def path_join_args_scratch)
  have wf: "write_fault env0 ?p = None" by (simp add: env0_def)
  have uf: "unlink_fault env0 ?p = None" by (simp add: env0_def)
  have d: "fst (writeFileSync env0 ?p (Bytes (buffer upload0)) w0) = Inr ()"
    by (simp add: writeFileSync_ok [OF wf])
  obtain t evs1 where s: "\<And>w. speechToText env0 upload0 w = (Inr t, w\<lparr>trace := trace w @ evs1\<rparr>)"
    using speechToText_frame [of env0 upload0] by blast
  have f: "fst (unlinkSync env0 ?p
           (meanwhile (during_transcription ?i)
              (snd (speechToText env0 upload0
                 (snd (writeFileSync env0 ?p (Bytes (buffer upload0)) w0)))))) = Inr ()"
    by (simp add: s writeFileSync_ok [OF wf] meanwhile_def unlinkSync_ok [OF uf])
  from scratch_file_deleted [OF a b c d f] a b c show ?thesis by simp
qed

text \<open>
  C7. Nothing reads the scratch copy back. Take the world right after the write and put
  any content \<open>c1\<close> or \<open>c2\<close> at the scratch path: \<^verbatim>\<open>speechToText\<close> and
  \<^verbatim>\<open>translateText\<close> return the same values, and the rest of the handler (lines 118 to
  124) gives the same response, or the same exception, and the same trace of calls. The
  response of the whole handler is the same in any two worlds.
\<close>

theorem scratch_copy_never_read:
  "fst (speechToText e audioFile (w\<lparr>files := (files w)(p \<mapsto> c1)\<rparr>)) =
     fst (speechToText e audioFile (w\<lparr>files := (files w)(p \<mapsto> c2)\<rparr>))
   \<and> fst (translateText e text textLang (w\<lparr>files := (files w)(p \<mapsto> c1)\<rparr>)) =
     fst (translateText e text textLang (w\<lparr>files := (files w)(p \<mapsto> c2)\<rparr>))
   \<and> fst (record_audio_after_write e audioFile p (w\<lparr>files := (files w)(p \<mapsto> c1)\<rparr>)) =
     fst (record_audio_after_write e audioFile p (w\<lparr>files := (files w)(p \<mapsto> c2)\<rparr>))
   \<and> trace (snd (record_audio_after_write e audioFile p (w\<lparr>files := (files w)(p \<mapsto> c1)\<rparr>))) =
     trace (snd (record_audio_after_write e audioFile p (w\<lparr>files := (files w)(p \<mapsto> c2)\<rparr>)))
   \<and> fst (record_audio e req w1) = fst (record_audio e req w2)"
proof -
  obtain t evs1 where s: "\<And>w. speechToText e audioFile w = (Inr t, w\<lparr>trace := trace w @ evs1\<rparr>)"
    using speechToText_frame [of e audioFile] by blast
  obtain tr evs2 where r: "\<And>w. translateText e text textLang w = (Inr tr, w\<lparr>trace := trace w @ evs2\<rparr>)"
    using translateText_frame [of e "text" textLang] by blast
  let ?w1 = "w\<lparr>files := (files w)(p \<mapsto> c1)\<rparr>" and ?w2 = "w\<lparr>files := (files w)(p \<mapsto> c2)\<rparr>"
  have "files ?w1 p \<noteq> None" and "files ?w2 p \<noteq> None" and "trace ?w1 = trace ?w2" by simp_all
  with after_write_content_independent [of ?w1 p ?w2 e audioFile]
  have "fst (record_audio_after_write e audioFile p ?w1) = fst (record_audio_after_write e audioFile p ?w2)"
    and "trace (snd (record_audio_after_write e audioFile p ?w1)) =
         trace (snd (record_audio_after_write e audioFile p ?w2))"
    by blast+
  then show ?thesis using record_audio_world_independent [of e req w1 w2] by (simp add: s r)
qed

theorem scratch_copy_never_read_witness:
  "fst (record_audio_after_write env0 upload0 (scratch_path env0 ''a.webm'')
          (w0\<lparr>files := (files w0)(scratch_path env0 ''a.webm'' \<mapsto> buffer upload0)\<rparr>)) =
   fst (record_audio_after_write env0 upload0 (scratch_path env0 ''a.webm'')
          (w0\<lparr>files := (files w0)(scratch_path env0 ''a.webm'' \<mapsto> [])\<rparr>))
   \<and> fst (record_audio_after_write env0 upload0 (scratch_path env0 ''a.webm'')
          (w0\<lparr>files := (files w0)(scratch_path env0 ''a.webm'' \<mapsto> [])\<rparr>)) =
       Inr \<lparr>status = 200,
            body = [(''message'', Str ''Transcription successful''),
                    (''audioTranscription'', Str ''hola mundo''),
                    (''translatedText'', Str ''hello world'')]\<rparr>"
proof -
  have uf: "unlink_fault env0 (scratch_path env0 ''a.webm'') = None" by (simp add: env0_def)
  have r: "recognize env0 (speech_request (base64 (buffer upload0))) = Inr response0" by (simp add: env0_def)
  have t: "translate env0 (Str ''hola mundo'') ''en'' = Inr (Str ''hello world'')" by (simp add: env0_def)
  have s: "\<And>w. fst (speechToText env0 upload0 w) = Inr (Str ''hola mundo'')"
    by (simp add: speechToText_def speechToText_try_def r response0_def best_transcript_def
        array_join_Cons)
  have l: "\<And>w. fst (translateText env0 (Str ''hola mundo'') ''en'' w) = Inr (Str ''hello world'')"
    by (simp add: translateText_def translateText_try_def t)
  let ?w = "w0\<lparr>files := (files w0)(scratch_path env0 ''a.webm'' \<mapsto> [])\<rparr>"
  have "files ?w (scratch_path env0 ''a.webm'') \<noteq> None" by simp
  with after_write_ok [OF uf, of upload0] s l
  have "fst (record_audio_after_write env0 upload0 (scratch_path env0 ''a.webm'') ?w) =
       Inr \<lparr>status = 200,
            body = [(''message'', Str ''Transcription successful''),
                    (''audioTranscription'', Str ''hola mundo''),
                    (''translatedText'', Str ''hello world'')]\<rparr>"
    by auto
  with scratch_copy_never_read [of env0 upload0 w0 "scratch_path env0 ''a.webm''" "buffer upload0" "[]"
              Undefined "''en''" req0 w0 w0]
  show ?thesis by simp
qed

subsection \<open>The error response of \<^verbatim>\<open>/api/record_audio\<close>\<close>

text \<open>
  C4. The \<^verbatim>\<open>catch\<close> block sends the object literal
  \<^verbatim>\<open>{ error: 'Failed to process audio', error }\<close>, which names the key \<^verbatim>\<open>error\<close>
  twice. The second property overwrites the first: whenever the status is 500 the body is
  the single field \<^verbatim>\<open>error\<close> holding the raised error object, and the static message
  \<^verbatim>\<open>'Failed to process audio'\<close> is not in the response.
\<close>

theorem error_body_keeps_only_error_object:
  "status (fst (record_audio e req w)) = 500 \<longrightarrow>
     (\<exists>err. body (fst (record_audio e req w)) =
              object_literal [(''error'', Str ''Failed to process audio''), (''error'', ErrorObj err)]
          \<and> body (fst (record_audio e req w)) = [(''error'', ErrorObj err)])"
proof (cases req rule: valid_split)
  case invalid
  then show ?thesis by (simp add: record_audio_invalid)
next
  case (not_string audioFile)
  from record_audio_not_string [OF this] show ?thesis
    by (auto simp: object_literal_def)
next
  case (valid audioFile fileName)
  show ?thesis
  proof (cases "write_fault e (scratch_path e fileName)")
    case (Some err)
    from record_audio_write_fault [OF valid Some] show ?thesis
      by (auto simp: object_literal_def)
  next
    case None
    show ?thesis
    proof (cases "unlink_fault e (scratch_path e fileName)")
      case (Some err)
      from record_audio_unlink_fault [OF valid None Some] show ?thesis
        by (auto simp: object_literal_def)
    next
      case n: None
      from record_audio_ok [OF valid None n] show ?thesis by auto
    qed
  qed
qed

theorem error_body_keeps_only_error_object_witness:
  "fst (record_audio env_write_refused req0 w0) =
     \<lparr>status = 500, body = [(''error'', ErrorObj (SystemError ''ENOENT'' ''open''))]\<rparr>
   \<and> (''error'', Str ''Failed to process audio'') \<notin> set (body (fst (record_audio env_write_refused req0 w0)))"
proof -
  have wf: "write_fault env_write_refused (scratch_path env_write_refused ''a.webm'') =
              Some (SystemError ''ENOENT'' ''open'')"
    by (simp add: env_write_refused_def env0_def)
  from record_audio_write_fault [OF req0_valid wf, of w0] error_body_keeps_only_error_object [of env_write_refused req0 w0]
  show ?thesis by auto
qed

subsection \<open>\<^verbatim>\<open>/api/synthesize\<close>\<close>

text \<open>
  C8. When \<^verbatim>\<open>text\<close> is present and the synthesis call fails, \<^verbatim>\<open>synthesizer\<close> returns
  \<^verbatim>\<open>undefined\<close>, \<^verbatim>\<open>fs.writeFileSync\<close> throws on it, the handler answers 500 with
  \<^verbatim>\<open>error: 'Failed to synthesize text'\<close>, and the files on disk are what they were.
\<close>

theorem failed_synthesis_gives_500:
  assumes "body_text req = Some text" and "text \<noteq> []"
    and "synthesizeSpeech e (synthesis_request text) = Inl err"
  shows "fst (synthesizer e text w) = Inr Undefined
     \<and> fst (synthesize e req w) =
         \<lparr>status = 500, body = [(''error'', Str ''Failed to synthesize text'')]\<rparr>
     \<and> files (snd (synthesize e req w)) = files w"
  by (simp add: synthesize_rejected [OF assms] synthesizer_rejected [OF assms(3)])

theorem failed_synthesis_gives_500_witness:
  "synthesizeSpeech env_service_down (synthesis_request ''hola'') = Inl (ServiceError ''UNAVAILABLE'')
   \<and> fst (synthesize env_service_down sreq0 w0) =
         \<lparr>status = 500, body = [(''error'', Str ''Failed to synthesize text'')]\<rparr>
   \<and> files (snd (synthesize env_service_down sreq0 w0)) = Map.empty"
proof -
  have t: "body_text sreq0 = Some ''hola''" "''hola'' \<noteq> []" by (simp_all add: sreq0_def)
  have s: "synthesizeSpeech env_service_down (synthesis_request ''hola'') = Inl (ServiceError ''UNAVAILABLE'')"
    by (simp add: env_service_down_def env0_def)
  from failed_synthesis_gives_500 [OF t s, of w0] s show ?thesis by (simp add: w0_def)
qed




end
